theory Spec2Isabelle
  imports Complex_Main "HOL-Library.AList" "HOL-Library.Sublist"
begin

section \<open>Python values\<close>

text \<open>
  A Python \<open>str\<close> is a sequence of Unicode code points, so it is modelled as a list of
  code point numbers. ASCII literals are written through \<open>of_ascii\<close>; the Russian
  messages of the source are given by their code points.
\<close>

type_synonym pystr = "nat list"

definition of_ascii :: "string \<Rightarrow> pystr" where
  "of_ascii s = map of_char s"

text \<open>
  The values that \<open>response.json()\<close> can produce and that callers can pass as arguments.
  A dictionary keeps its insertion order, so it is an association list. A float is
  represented by the rational it denotes: the program only tests floats for truth.
\<close>

datatype json =
    JNull
  | JBool bool
  | JInt int
  | JFloat rat
  | JStr pystr
  | JList "json list"
  | JObj "(pystr \<times> json) list"

type_synonym dict = "(pystr \<times> json) list"

text \<open>The exceptions of the program, each with the message it carries.\<close>

datatype error =
    APIError pystr
  | ValueError pystr
  | TypeError pystr
  | AttributeError pystr
  | IndexError pystr
  | DatabaseError pystr
  | InterfaceError pystr

text \<open>\<open>d.get(k, default)\<close> and \<open>d[k] = v\<close>.\<close>

definition py_get :: "dict \<Rightarrow> pystr \<Rightarrow> json \<Rightarrow> json" where
  "py_get d k dflt = (case map_of d k of Some v \<Rightarrow> v | None \<Rightarrow> dflt)"

definition py_setitem :: "dict \<Rightarrow> pystr \<Rightarrow> json \<Rightarrow> dict" where
  "py_setitem d k v = AList.update k v d"

text \<open>Truth value of an object, as \<open>if not x\<close> tests it.\<close>

fun truthy :: "json \<Rightarrow> bool" where
  "truthy JNull = False"
| "truthy (JBool b) = b"
| "truthy (JInt i) = (i \<noteq> 0)"
| "truthy (JFloat r) = (r \<noteq> 0)"
| "truthy (JStr s) = (s \<noteq> [])"
| "truthy (JList xs) = (xs \<noteq> [])"
| "truthy (JObj kvs) = (kvs \<noteq> [])"

text \<open>
  What \<open>list.extend(x)\<close> appends: the elements of a list, the characters of a string,
  the keys of a dictionary; any other object is not iterable.
\<close>

definition not_iterable :: "string \<Rightarrow> error" where
  "not_iterable tp = TypeError (of_ascii [CHR 0x27] @ of_ascii tp @ of_ascii [CHR 0x27]
     @ of_ascii '' object is not iterable'')"

fun py_iter :: "json \<Rightarrow> error + json list" where
  "py_iter (JList xs) = Inr xs"
| "py_iter (JStr s) = Inr (map (\<lambda>c. JStr [c]) s)"
| "py_iter (JObj kvs) = Inr (map (\<lambda>kv. JStr (fst kv)) kvs)"
| "py_iter JNull = Inl (not_iterable ''NoneType'')"
| "py_iter (JBool b) = Inl (not_iterable ''bool'')"
| "py_iter (JInt i) = Inl (not_iterable ''int'')"
| "py_iter (JFloat r) = Inl (not_iterable ''float'')"

text \<open>\<open>str(n)\<close> for an integer: decimal digits, with a minus sign when negative.\<close>

fun nat_digits :: "nat \<Rightarrow> pystr" where
  "nat_digits n = (if n < 10 then [48 + n] else nat_digits (n div 10) @ [48 + n mod 10])"

declare nat_digits.simps [simp del]

definition str_int :: "int \<Rightarrow> pystr" where
  "str_int i = (if i < 0 then 45 # nat_digits (nat (- i)) else nat_digits (nat i))"

section \<open>The API client (src/hh\_api.py)\<close>

subsection \<open>The HTTP library\<close>

text \<open>
  \<open>requests.get(url, headers, params)\<close> either raises a \<open>RequestException\<close> (transport
  failure) or returns a response. Of a response the program reads \<open>status_code\<close>,
  \<open>text\<close> and \<open>json()\<close>; the latter raises a \<open>JSONDecodeError\<close>, which \<open>requests\<close>
  derives from \<open>RequestException\<close>, when the body is not JSON.
\<close>

record request =
  url :: pystr
  req_headers :: "(pystr \<times> pystr) list"
  req_params :: dict

record response =
  status_code :: int
  resp_text :: pystr
  json_body :: "pystr + json"

datatype outcome = RequestException pystr | Response response

text \<open>
  The remote side: the outcome of a request may depend on the request and on how many
  requests were issued before it.
\<close>

type_synonym server = "nat \<Rightarrow> request \<Rightarrow> outcome"

subsection \<open>HeadHunterAPI\<close>

text \<open>
  The object's attributes, and \<open>sent\<close>, the requests issued so far (the observable
  effect of \<open>requests.get\<close>).
\<close>

record hh_api =
  base_url :: pystr
  headers :: "(pystr \<times> pystr) list"
  endpoint :: pystr
  params :: dict
  sent :: "request list"

definition msg_api_status :: pystr where
  "msg_api_status = [1054, 1096, 1080, 1073, 1082, 1072, 32, 65, 80, 73, 58, 32]"

definition msg_api_request :: pystr where
  "msg_api_request = [1054, 1096, 1080, 1073, 1082, 1072, 32, 1087, 1088, 1080, 32, 1079,
     1072, 1087, 1088, 1086, 1089, 1077, 58, 32]"

definition msg_not_dict :: pystr where
  "msg_not_dict = [65, 80, 73, 32, 1074, 1099, 1076, 1072, 1077, 1090, 32, 1085, 1077, 32,
     1089, 1083, 1086, 1074, 1072, 1088, 1100]"

definition request_for :: "pystr option \<Rightarrow> 'a hh_api_scheme \<Rightarrow> request" where
  "request_for ep s =
     \<lparr>url = base_url s @ (case ep of None \<Rightarrow> endpoint s | Some e \<Rightarrow> e),
      req_headers = headers s,
      req_params = params s\<rparr>"

text \<open>
  \<open>__connect\<close>: an \<open>APIError\<close> raised inside the \<open>try\<close> is not a \<open>RequestException\<close>, so
  the handler does not touch it; neither does it touch the \<open>ValueError\<close>.
\<close>

definition private_connect ::
  "server \<Rightarrow> pystr option \<Rightarrow> 'a hh_api_scheme \<Rightarrow> (error + dict) \<times> 'a hh_api_scheme" where
  "private_connect srv ep s =
     (let rq = request_for ep s;
          s' = s\<lparr>sent := sent s @ [rq]\<rparr>
      in case srv (length (sent s)) rq of
           RequestException m \<Rightarrow> (Inl (APIError (msg_api_request @ m)), s')
         | Response r \<Rightarrow>
             if status_code r \<noteq> 200
             then (Inl (APIError (msg_api_status @ str_int (status_code r)
                          @ of_ascii '' - '' @ resp_text r)), s')
             else (case json_body r of
                     Inl m \<Rightarrow> (Inl (APIError (msg_api_request @ m)), s')
                   | Inr (JObj kvs) \<Rightarrow> (Inr kvs, s')
                   | Inr _ \<Rightarrow> (Inl (ValueError msg_not_dict), s')))"

definition connect ::
  "server \<Rightarrow> pystr option \<Rightarrow> 'a hh_api_scheme \<Rightarrow> (error + dict) \<times> 'a hh_api_scheme" where
  "connect srv ep s = private_connect srv ep s"

definition HeadHunterAPI_init :: hh_api where
  "HeadHunterAPI_init =
     \<lparr>base_url = of_ascii ''https://api.hh.ru'',
      headers = [(of_ascii ''User-Agent'', of_ascii ''HH-User-Agent'')],
      endpoint = [],
      params = [],
      sent = []\<rparr>"

subsection \<open>HHVacanciesAPI\<close>

record hh_vacancies_api = hh_api +
  vacancies :: "json list"

definition k_text :: pystr where "k_text = of_ascii ''text''"
definition k_page :: pystr where "k_page = of_ascii ''page''"
definition k_per_page :: pystr where "k_per_page = of_ascii ''per_page''"
definition k_employer_id :: pystr where "k_employer_id = of_ascii ''employer_id''"
definition k_items :: pystr where "k_items = of_ascii ''items''"

definition HHVacanciesAPI_init :: hh_vacancies_api where
  "HHVacanciesAPI_init =
     hh_api.extend
       (HeadHunterAPI_init
          \<lparr>endpoint := of_ascii ''/vacancies'',
           params := [(k_text, JStr []), (k_page, JInt 0), (k_per_page, JInt 100)]\<rparr>)
       (hh_vacancies_api.fields [])"

text \<open>
  \<open>self._params.get("page", 0)\<close> as the integer the loop condition compares. The entry
  is the integer stored by line 94 and incremented by line 102; nothing else writes it.
\<close>

definition page_of :: "dict \<Rightarrow> int option" where
  "page_of ps = (case py_get ps k_page (JInt 0) of JInt p \<Rightarrow> Some p | _ \<Rightarrow> None)"

definition msg_page_not_int :: pystr where
  "msg_page_not_int = of_ascii ''page is not an integer''"

text \<open>
  The \<open>while\<close> loop of \<open>get_vacancies_by_employer_id\<close> (lines 96 to 102). An exception
  of \<open>connect\<close> or of \<open>extend\<close> leaves the loop and the method. \<open>connect\<close> does not
  change \<open>_params\<close>, so the value that \<open>+= 1\<close> reads is the \<open>p\<close> of the loop condition.
  The first branch is not reachable from the method (see \<open>page_of\<close>); Python raises a
  \<open>TypeError\<close> on comparing a non-number with \<open>max_pages\<close>.
\<close>

function vacancies_loop ::
  "server \<Rightarrow> int \<Rightarrow> hh_vacancies_api \<Rightarrow> (error + unit) \<times> hh_vacancies_api" where
  "vacancies_loop srv max_pages s =
     (case page_of (params s) of
        None \<Rightarrow> (Inl (TypeError msg_page_not_int), s)
      | Some p \<Rightarrow>
          if p < max_pages then
            (case connect srv None s of
               (Inl e, s1) \<Rightarrow> (Inl e, s1)
             | (Inr data, s1) \<Rightarrow>
                 (let vacancy = py_get data k_items (JList []) in
                  if \<not> truthy vacancy then (Inr (), s1)
                  else (case py_iter vacancy of
                          Inl e \<Rightarrow> (Inl e, s1)
                        | Inr items \<Rightarrow>
                            vacancies_loop srv max_pages
                              (s1\<lparr>vacancies := vacancies s1 @ items,
                                  params := py_setitem (params s1) k_page (JInt (p + 1))\<rparr>))))
          else (Inr (), s))"
  by pat_completeness auto
termination
proof (relation "measure (\<lambda>(srv, max_pages, s).
    nat (max_pages - (case page_of (params s) of Some p \<Rightarrow> p | None \<Rightarrow> 0)))", goal_cases)
  case 1
  show ?case by simp
next
  case (2 srv max_pages s p x y data vacancy items)
  have "page_of (py_setitem (params y) k_page (JInt (p + 1))) = Some (p + 1)"
    by (simp add: page_of_def py_get_def py_setitem_def update_conv')
  with 2 show ?case by simp
qed

declare vacancies_loop.simps [simp del]

definition get_vacancies_by_employer_id ::
  "server \<Rightarrow> json \<Rightarrow> int \<Rightarrow> hh_vacancies_api \<Rightarrow> (error + json list) \<times> hh_vacancies_api" where
  "get_vacancies_by_employer_id srv employer_id max_pages s =
     (let s1 = s\<lparr>params := py_setitem (params s) k_employer_id employer_id\<rparr>;
          s2 = s1\<lparr>params := py_setitem (params s1) k_page (JInt 0)\<rparr>;
          s3 = s2\<lparr>vacancies := []\<rparr>
      in case vacancies_loop srv max_pages s3 of
           (Inl e, s4) \<Rightarrow> (Inl e, s4)
         | (Inr u, s4) \<Rightarrow> (Inr (vacancies s4), s4))"

subsection \<open>HHEmployerAPI\<close>

record hh_employer_api = hh_api +
  employer :: dict

definition HHEmployerAPI_init :: hh_employer_api where
  "HHEmployerAPI_init =
     hh_api.extend (HeadHunterAPI_init\<lparr>endpoint := of_ascii ''/employers/''\<rparr>)
       (hh_employer_api.fields [])"

text \<open>
  \<open>employer_id\<close> is formatted into the URL by an f-string; the caller passes the
  string identifier of an employer.
\<close>

definition get_employer_by_id ::
  "server \<Rightarrow> pystr \<Rightarrow> hh_employer_api \<Rightarrow> (error + dict) \<times> hh_employer_api" where
  "get_employer_by_id srv employer_id s =
     (let endpoint_url = endpoint s @ employer_id in
      case connect srv (Some endpoint_url) s of
        (Inl e, s1) \<Rightarrow> (Inl e, s1)
      | (Inr data, s1) \<Rightarrow> (Inr data, s1\<lparr>employer := data\<rparr>))"

subsection \<open>HHEmployersAPI\<close>

record hh_employers_api = hh_api +
  employers :: "json list"

definition HHEmployersAPI_init :: hh_employers_api where
  "HHEmployersAPI_init =
     hh_api.extend (HeadHunterAPI_init\<lparr>endpoint := of_ascii ''/employers''\<rparr>)
       (hh_employers_api.fields [])"

definition k_only_with_vacancies :: pystr where
  "k_only_with_vacancies = of_ascii ''only_with_vacancies''"
definition k_area :: pystr where "k_area = of_ascii ''area''"
definition k_sort_by :: pystr where "k_sort_by = of_ascii ''sort_by''"

text \<open>Lines 171 to 175 and 190 to 194: clear the list, connect, extend it by the items.\<close>

definition fetch_employers ::
  "server \<Rightarrow> hh_employers_api \<Rightarrow> (error + json list) \<times> hh_employers_api" where
  "fetch_employers srv s =
     (let s1 = s\<lparr>employers := []\<rparr> in
      case connect srv None s1 of
        (Inl e, s2) \<Rightarrow> (Inl e, s2)
      | (Inr data, s2) \<Rightarrow>
          (let employers_search = py_get data k_items (JList []) in
           case py_iter employers_search of
             Inl e \<Rightarrow> (Inl e, s2)
           | Inr items \<Rightarrow>
               (let s3 = s2\<lparr>employers := employers s2 @ items\<rparr>
                in (Inr (employers s3), s3))))"

definition search_employers_by_keyword ::
  "server \<Rightarrow> json \<Rightarrow> hh_employers_api \<Rightarrow> (error + json list) \<times> hh_employers_api" where
  "search_employers_by_keyword srv keyword s =
     fetch_employers srv
       (s\<lparr>params := [(k_text, keyword), (k_only_with_vacancies, JStr (of_ascii ''true'')),
                      (k_area, JStr (of_ascii ''113''))]\<rparr>)"

definition msg_not_number :: pystr where
  "msg_not_number = [1040, 1088, 1075, 1091, 1084, 1077, 1085, 1090, 32, 1085, 1077, 32,
     1103, 1074, 1083, 1103, 1077, 1090, 1089, 1103, 32, 1095, 1080, 1089, 1083, 1086, 1084]"

definition msg_range :: pystr where
  "msg_range = [1050, 1086, 1083, 1080, 1095, 1077, 1089, 1090, 1074, 1086, 32, 1076, 1086,
     1083, 1078, 1085, 1086, 32, 1073, 1099, 1090, 1100, 32, 1074, 32, 1076, 1080, 1072, 1087,
     1072, 1079, 1086, 1085, 1077, 32, 1086, 1090, 32, 49, 32, 1076, 1086, 32, 49, 48, 48]"

text \<open>
  \<open>isinstance(x, int)\<close> holds of integers and of booleans (\<open>bool\<close> is a subclass of
  \<open>int\<close>); \<open>True\<close> and \<open>False\<close> compare as 1 and 0.
\<close>

fun int_value :: "json \<Rightarrow> int option" where
  "int_value (JInt i) = Some i"
| "int_value (JBool b) = Some (if b then 1 else 0)"
| "int_value _ = None"

definition get_top_employers ::
  "server \<Rightarrow> json \<Rightarrow> hh_employers_api \<Rightarrow> (error + json list) \<times> hh_employers_api" where
  "get_top_employers srv top_n s =
     (case int_value top_n of
        None \<Rightarrow> (Inl (TypeError msg_not_number), s)
      | Some n \<Rightarrow>
          if n > 100 then (Inl (ValueError msg_range), s)
          else fetch_employers srv
                 (s\<lparr>params := [(k_per_page, top_n), (k_sort_by, JStr (of_ascii ''by_vacancies_open'')),
                                (k_area, JStr (of_ascii ''113''))]\<rparr>))"

subsection \<open>Notions used to state the properties of the client\<close>

text \<open>
  The request that \<open>get_vacancies_by_employer_id\<close> issues for page \<open>i\<close>: the object's URL
  and headers, and its parameters with \<open>employer_id\<close> set and \<open>page\<close> equal to \<open>i\<close>.
\<close>

definition page_request :: "hh_vacancies_api \<Rightarrow> json \<Rightarrow> nat \<Rightarrow> request" where
  "page_request s employer_id i =
     \<lparr>url = base_url s @ endpoint s,
      req_headers = headers s,
      req_params = py_setitem (py_setitem (params s) k_employer_id employer_id) k_page (JInt (int i))\<rparr>"

text \<open>
  \<open>request_at s i\<close> is the request of an object in state \<open>s\<close> once its page cursor
  is \<open>i\<close>.
\<close>

definition request_at :: "hh_vacancies_api \<Rightarrow> nat \<Rightarrow> request" where
  "request_at s i =
     \<lparr>url = base_url s @ endpoint s,
      req_headers = headers s,
      req_params = py_setitem (params s) k_page (JInt (int i))\<rparr>"

text \<open>
  \<open>first_empty pages i n\<close> is the first index among \<open>i, \<dots>, i + n - 1\<close> whose page is
  empty, and \<open>i + n\<close> when there is none.
\<close>

primrec first_empty :: "(nat \<Rightarrow> json list) \<Rightarrow> nat \<Rightarrow> nat \<Rightarrow> nat" where
  "first_empty pages i 0 = i"
| "first_empty pages i (Suc n) = (if pages i = [] then i else first_empty pages (Suc i) n)"

text \<open>
  Servers for the examples: one that answers every request with the same outcome, and
  one that holds pages of items and answers status 200 with the page that the request's
  \<open>page\<close> parameter names (an empty \<open>items\<close> list past the last page).
\<close>

definition const_server :: "outcome \<Rightarrow> server" where
  "const_server out n rq = out"

definition nth_page :: "json list list \<Rightarrow> nat \<Rightarrow> json list" where
  "nth_page ps i = (if i < length ps then ps ! i else [])"

definition paged_server :: "json list list \<Rightarrow> server" where
  "paged_server ps n rq =
     Response \<lparr>status_code = 200, resp_text = [],
       json_body = Inr (JObj [(k_items, JList
         (case page_of (req_params rq) of
            Some p \<Rightarrow> if 0 \<le> p then nth_page ps (nat p) else []
          | None \<Rightarrow> []))])\<rparr>"

definition item :: "string \<Rightarrow> json" where
  "item i = JObj [(of_ascii ''id'', JStr (of_ascii i))]"

definition example_pages :: "json list list" where
  "example_pages = [[item ''1'', item ''2''], [item ''1''], [], [item ''9'']]"

text \<open>The request that \<open>get_top_employers\<close> issues: one page of \<open>top_n\<close> employers.\<close>

definition top_request :: "hh_employers_api \<Rightarrow> json \<Rightarrow> request" where
  "top_request s top_n =
     \<lparr>url = base_url s @ endpoint s,
      req_headers = headers s,
      req_params = [(k_per_page, top_n), (k_sort_by, JStr (of_ascii ''by_vacancies_open'')),
                    (k_area, JStr (of_ascii ''113''))]\<rparr>"

text \<open>Responses and transport failures for the examples.\<close>

definition ok_response :: "dict \<Rightarrow> response" where
  "ok_response d = \<lparr>status_code = 200, resp_text = [], json_body = Inr (JObj d)\<rparr>"

definition not_found :: response where
  "not_found = \<lparr>status_code = 404, resp_text = of_ascii ''Not Found'', json_body = Inl []\<rparr>"

definition network_error :: pystr where
  "network_error = of_ascii ''Network error''"

definition two_items :: response where
  "two_items = ok_response [(k_items, JList [item ''1'', item ''2''])]"

definition no_items :: response where
  "no_items = ok_response [(k_items, JList [])]"

text \<open>
  The state of the object when it requests page \<open>k\<close>, after the pages \<open>0, \<dots>, k - 1\<close>
  have been read: their requests sent, their items accumulated, the cursor at \<open>k\<close>.
\<close>

definition page_state :: "hh_vacancies_api \<Rightarrow> json \<Rightarrow> (nat \<Rightarrow> json list) \<Rightarrow> nat \<Rightarrow> hh_vacancies_api" where
  "page_state s employer_id pages k =
     s\<lparr>params := py_setitem (py_setitem (params s) k_employer_id employer_id) k_page (JInt (int k)),
       vacancies := concat (map pages [0..<k]),
       sent := sent s @ map (page_request s employer_id) [0..<k]\<rparr>"

text \<open>
  A response of status 500, and a server that answers its first requests as
  \<open>paged_server\<close> does, one for each page it holds, and every later request with the
  given outcome.
\<close>

definition server_error :: response where
  "server_error = \<lparr>status_code = 500, resp_text = of_ascii ''Internal Server Error'',
     json_body = Inl []\<rparr>"

definition failing_after :: "json list list \<Rightarrow> outcome \<Rightarrow> server" where
  "failing_after ps out n rq = (if n < length ps then paged_server ps n rq else out)"

section \<open>The data access layer (src/database.py)\<close>

subsection \<open>Strings\<close>

text \<open>
  The code points that Python's \<open>str.split()\<close> and \<open>str.isspace()\<close> treat as whitespace.
\<close>

definition is_space :: "nat \<Rightarrow> bool" where
  "is_space c = (c \<in> set [9, 10, 11, 12, 13, 28, 29, 30, 31, 32, 133, 160, 5760,
     8192, 8193, 8194, 8195, 8196, 8197, 8198, 8199, 8200, 8201, 8202,
     8232, 8233, 8239, 8287, 12288])"

text \<open>
  \<open>s.split()\<close>: the maximal runs of non-whitespace characters, in order. The first
  argument is the word read so far.
\<close>

fun split_from :: "pystr \<Rightarrow> pystr \<Rightarrow> pystr list" where
  "split_from word [] = (if word = [] then [] else [word])"
| "split_from word (c # cs) =
     (if is_space c
      then (if word = [] then split_from [] cs else word # split_from [] cs)
      else split_from (word @ [c]) cs)"

definition py_split :: "pystr \<Rightarrow> pystr list" where
  "py_split s = split_from [] s"

subsection \<open>The database driver\<close>

text \<open>
  A value of a result row. A \<open>numeric\<close> is represented by the rational it denotes.
\<close>

datatype sqlval = SqlNull | SqlInt int | SqlText pystr | SqlNumeric rat

type_synonym row = "sqlval list"

text \<open>
  The statements of the program. The four fixed ones are named after their method; the
  keyword search has one \<open>LIKE\<close> condition for each element of its parameter tuple, which
  the statement carries.
\<close>

datatype statement =
    SelectCompaniesCount
  | SelectAllVacancies
  | SelectAvgSalary
  | SelectHigherSalary
  | SelectKeyword "pystr list"

text \<open>
  \<open>pg_connect\<close> is \<open>psycopg2.connect(host, user, port, dbname, password)\<close>: a connection
  handle or the exception raised. \<open>pg_execute\<close> is what \<open>conn.cursor()\<close>, \<open>cur.execute\<close>
  and the fetch give on an open connection: the rows or the first exception raised
  (the steps are not told apart: an exception of \<open>cursor()\<close> counts as one of the
  statement).
  \<open>DatabaseError\<close> stands for \<open>psycopg2.DatabaseError\<close> and its subclasses,
  \<open>InterfaceError\<close> for the driver's errors outside this class. Closing a connection
  does not fail.
\<close>

record driver =
  pg_connect :: "pystr \<Rightarrow> pystr \<Rightarrow> json \<Rightarrow> pystr \<Rightarrow> json \<Rightarrow> error + nat"
  pg_execute :: "statement \<Rightarrow> error + row list"

fun is_DatabaseError :: "error \<Rightarrow> bool" where
  "is_DatabaseError (DatabaseError m) = True"
| "is_DatabaseError _ = False"

fun is_ValueError :: "error \<Rightarrow> bool" where
  "is_ValueError (ValueError m) = True"
| "is_ValueError _ = False"

text \<open>\<open>str(exc)\<close>: the message of an exception.\<close>

fun message :: "error \<Rightarrow> pystr" where
  "message (APIError m) = m"
| "message (ValueError m) = m"
| "message (TypeError m) = m"
| "message (AttributeError m) = m"
| "message (IndexError m) = m"
| "message (DatabaseError m) = m"
| "message (InterfaceError m) = m"

subsection \<open>DBManager\<close>

text \<open>
  What the program does to the outside: calls of \<open>psycopg2.connect\<close>, statements
  executed, connections closed, and lines printed.
\<close>

datatype event = Connect | Execute statement | Close | Print pystr

record db_manager =
  host :: pystr
  user :: pystr
  port :: json
  database :: pystr
  password :: json
  conn :: "nat option"
  trace :: "event list"

text \<open>
  Lines 63 to 68 of \<open>__init__\<close>, from the dictionary that \<open>config\<close> has parsed (its values
  are strings).
\<close>

definition DBManager_init :: "(pystr \<times> pystr) list \<Rightarrow> db_manager" where
  "DBManager_init config =
     \<lparr>host = (case map_of config (of_ascii ''host'') of Some v \<Rightarrow> v | None \<Rightarrow> of_ascii ''localhost''),
      user = (case map_of config (of_ascii ''user'') of Some v \<Rightarrow> v | None \<Rightarrow> of_ascii ''postgres''),
      port = (case map_of config (of_ascii ''port'') of Some v \<Rightarrow> JStr v | None \<Rightarrow> JInt 5432),
      database = (case map_of config (of_ascii ''dbname'') of Some v \<Rightarrow> v | None \<Rightarrow> of_ascii ''postgres''),
      password = (case map_of config (of_ascii ''password'') of Some v \<Rightarrow> JStr v | None \<Rightarrow> JNull),
      conn = None,
      trace = []\<rparr>"

definition msg_connect_failed :: pystr where
  "msg_connect_failed = [1054, 1096, 1080, 1073, 1082, 1072, 32, 1087, 1086, 1076, 1082, 1083,
     1102, 1095, 1077, 1085, 1080, 1103, 58, 32]"

definition msg_already :: pystr where
  "msg_already = [1055, 1086, 1076, 1082, 1083, 1102, 1095, 1077, 1085, 1080, 1077, 32, 1091,
     1078, 1077, 32, 1091, 1089, 1090, 1072, 1085, 1086, 1074, 1083, 1077, 1085, 1086]"

definition msg_error :: pystr where
  "msg_error = [1055, 1088, 1086, 1080, 1079, 1086, 1096, 1083, 1072, 32, 1086, 1096, 1080,
     1073, 1082, 1072, 58, 32]"

definition msg_not_numeric :: pystr where
  "msg_not_numeric = [1055, 1086, 1083, 1091, 1095, 1077, 1085, 1086, 32, 1085, 1077, 32, 1095,
     1080, 1089, 1083, 1086, 1074, 1086, 1077, 32, 1079, 1085, 1072, 1095, 1077, 1085, 1080, 1077]"

text \<open>
  \<open>connect\<close>: only a \<open>DatabaseError\<close> of the driver is caught; it is printed and the
  handle stays unset.
\<close>

definition db_connect :: "driver \<Rightarrow> db_manager \<Rightarrow> (error + unit) \<times> db_manager" where
  "db_connect drv s =
     (case conn s of
        None \<Rightarrow>
          (let s1 = s\<lparr>trace := trace s @ [Connect]\<rparr> in
           case pg_connect drv (host s) (user s) (port s) (database s) (password s) of
             Inr c \<Rightarrow> (Inr (), s1\<lparr>conn := Some c\<rparr>)
           | Inl e \<Rightarrow>
               if is_DatabaseError e
               then (Inr (), s1\<lparr>trace := trace s1 @ [Print (msg_connect_failed @ message e)],
                              conn := None\<rparr>)
               else (Inl e, s1))
      | Some c \<Rightarrow> (Inr (), s\<lparr>trace := trace s @ [Print msg_already]\<rparr>))"

definition db_close :: "db_manager \<Rightarrow> db_manager" where
  "db_close s =
     (case conn s of
        Some c \<Rightarrow> s\<lparr>trace := trace s @ [Close], conn := None\<rparr>
      | None \<Rightarrow> s)"

text \<open>\<open>self.__conn.cursor()\<close> on an unset handle.\<close>

definition none_has_no_cursor :: error where
  "none_has_no_cursor = AttributeError (of_ascii [CHR 0x27] @ of_ascii ''NoneType''
     @ of_ascii [CHR 0x27] @ of_ascii '' object has no attribute '' @ of_ascii [CHR 0x27]
     @ of_ascii ''cursor'' @ of_ascii [CHR 0x27])"

text \<open>
  The body shared by the four methods that return rows: \<open>connect\<close> before the \<open>try\<close>;
  in the \<open>try\<close> the cursor, the statement and \<open>fetchall\<close>; a handler for \<open>DatabaseError\<close>
  only; \<open>close\<close> in the \<open>finally\<close>.
\<close>

definition select_rows :: "driver \<Rightarrow> statement \<Rightarrow> db_manager \<Rightarrow> (error + row list) \<times> db_manager" where
  "select_rows drv st s =
     (case db_connect drv s of
        (Inl e, s1) \<Rightarrow> (Inl e, s1)
      | (Inr u, s1) \<Rightarrow>
          (case conn s1 of
             None \<Rightarrow> (Inl none_has_no_cursor, db_close s1)
           | Some c \<Rightarrow>
               (let s2 = s1\<lparr>trace := trace s1 @ [Execute st]\<rparr> in
                case pg_execute drv st of
                  Inr result \<Rightarrow> (Inr (if result \<noteq> [] then result else []), db_close s2)
                | Inl e \<Rightarrow>
                    if is_DatabaseError e
                    then (Inr [], db_close (s2\<lparr>trace := trace s2 @ [Print (msg_error @ message e)]\<rparr>))
                    else (Inl e, db_close s2))))"

definition get_companies_and_vacancies_count ::
  "driver \<Rightarrow> db_manager \<Rightarrow> (error + row list) \<times> db_manager" where
  "get_companies_and_vacancies_count drv s = select_rows drv SelectCompaniesCount s"

definition get_all_vacancies :: "driver \<Rightarrow> db_manager \<Rightarrow> (error + row list) \<times> db_manager" where
  "get_all_vacancies drv s = select_rows drv SelectAllVacancies s"

definition get_vacancies_with_higher_salary ::
  "driver \<Rightarrow> db_manager \<Rightarrow> (error + row list) \<times> db_manager" where
  "get_vacancies_with_higher_salary drv s = select_rows drv SelectHigherSalary s"

definition get_vacancies_with_keyword ::
  "driver \<Rightarrow> pystr \<Rightarrow> db_manager \<Rightarrow> (error + row list) \<times> db_manager" where
  "get_vacancies_with_keyword drv keywords s =
     (if py_split keywords = [] then (Inr [], s)
      else (let keywords_list = py_split keywords
            in select_rows drv (SelectKeyword (map (\<lambda>keyword. 37 # keyword @ [37]) keywords_list)) s))"

text \<open>
  \<open>get_avg_salary\<close>. \<open>fetchone()[0]\<close> fails on no row and on an empty row. A falsy
  \<open>result\<close> gives \<open>0.0\<close>; otherwise \<open>float(result)\<close>, which raises a \<open>ValueError\<close> on a
  string that is not a number. The float, in the code the double nearest to \<open>result\<close>,
  is represented by the rational that \<open>result\<close> denotes; \<open>float_of_text\<close> is Python's reading of a string as a number.
\<close>

fun sql_truthy :: "sqlval \<Rightarrow> bool" where
  "sql_truthy SqlNull = False"
| "sql_truthy (SqlInt i) = (i \<noteq> 0)"
| "sql_truthy (SqlText t) = (t \<noteq> [])"
| "sql_truthy (SqlNumeric r) = (r \<noteq> 0)"

fun py_float :: "(pystr \<Rightarrow> rat option) \<Rightarrow> sqlval \<Rightarrow> error + rat" where
  "py_float float_of_text (SqlInt i) = Inr (of_int i)"
| "py_float float_of_text (SqlNumeric r) = Inr r"
| "py_float float_of_text (SqlText t) =
     (case float_of_text t of
        Some r \<Rightarrow> Inr r
      | None \<Rightarrow> Inl (ValueError (of_ascii ''could not convert string to float'')))"
| "py_float float_of_text SqlNull =
     Inl (TypeError (of_ascii ''float() argument must be a string or a real number''))"

definition first_column :: "row list \<Rightarrow> error + sqlval" where
  "first_column rows =
     (case rows of
        [] \<Rightarrow> Inl (TypeError (of_ascii [CHR 0x27] @ of_ascii ''NoneType'' @ of_ascii [CHR 0x27]
                 @ of_ascii '' object is not subscriptable''))
      | r # rs \<Rightarrow>
          (case r of
             [] \<Rightarrow> Inl (IndexError (of_ascii ''tuple index out of range''))
           | v # vs \<Rightarrow> Inr v))"

definition avg_salary_body :: "driver \<Rightarrow> (pystr \<Rightarrow> rat option) \<Rightarrow> error + rat" where
  "avg_salary_body drv float_of_text =
     (case pg_execute drv SelectAvgSalary of
        Inl e \<Rightarrow> Inl e
      | Inr rows \<Rightarrow>
          (case first_column rows of
             Inl e \<Rightarrow> Inl e
           | Inr result \<Rightarrow> if sql_truthy result then py_float float_of_text result else Inr 0))"

definition get_avg_salary ::
  "driver \<Rightarrow> (pystr \<Rightarrow> rat option) \<Rightarrow> db_manager \<Rightarrow> (error + rat) \<times> db_manager" where
  "get_avg_salary drv float_of_text s =
     (case db_connect drv s of
        (Inl e, s1) \<Rightarrow> (Inl e, s1)
      | (Inr u, s1) \<Rightarrow>
          (case conn s1 of
             None \<Rightarrow> (Inl none_has_no_cursor, db_close s1)
           | Some c \<Rightarrow>
               (let s2 = s1\<lparr>trace := trace s1 @ [Execute SelectAvgSalary]\<rparr> in
                case avg_salary_body drv float_of_text of
                  Inr r \<Rightarrow> (Inr r, db_close s2)
                | Inl e \<Rightarrow>
                    if is_DatabaseError e
                    then (Inr 0, db_close (s2\<lparr>trace := trace s2 @ [Print (msg_error @ message e)]\<rparr>))
                    else if is_ValueError e
                    then (Inr 0, db_close (s2\<lparr>trace := trace s2 @ [Print msg_not_numeric]\<rparr>))
                    else (Inl e, db_close s2))))"

subsection \<open>The statement of get\_vacancies\_with\_higher\_salary\<close>

text \<open>
  A row of the table \<open>vacancies\<close> (src/utils.py, \<open>create_table_vacancies\<close>): the
  salary columns are nullable \<open>INT\<close> columns, as is the reference to the employer.
\<close>

record vacancy_row =
  vacancy_id :: int
  employer_ref :: "int option"
  vacancy_name :: pystr
  city :: pystr
  vacancy_url :: pystr
  salary_from :: "int option"
  salary_to :: "int option"

text \<open>
  \<open>salary_from + salary_to\<close> on \<open>INT\<close> columns: \<open>NULL\<close> when an operand is \<open>NULL\<close>, an
  error when the sum leaves the 32-bit range.
\<close>

definition salary_sum :: "vacancy_row \<Rightarrow> error + int option" where
  "salary_sum v =
     (case salary_from v of
        None \<Rightarrow> Inr None
      | Some a \<Rightarrow>
          (case salary_to v of
             None \<Rightarrow> Inr None
           | Some b \<Rightarrow>
               if - (2 ^ 31) \<le> a + b \<and> a + b < 2 ^ 31 then Inr (Some (a + b))
               else Inl (DatabaseError (of_ascii ''integer out of range''))))"

fun salary_sums :: "vacancy_row list \<Rightarrow> error + int option list" where
  "salary_sums [] = Inr []"
| "salary_sums (v # vs) =
     (case salary_sum v of
        Inl e \<Rightarrow> Inl e
      | Inr x \<Rightarrow> (case salary_sums vs of Inl e \<Rightarrow> Inl e | Inr xs \<Rightarrow> Inr (x # xs)))"

text \<open>\<open>AVG\<close> of an integer column: the exact mean of the values that are not \<open>NULL\<close>.\<close>

definition sql_avg :: "int option list \<Rightarrow> rat option" where
  "sql_avg xs =
     (let ys = concat (map (\<lambda>x. case x of None \<Rightarrow> [] | Some y \<Rightarrow> [y]) xs)
      in if ys = [] then None else Some (of_int (sum_list ys) / of_int (int (length ys))))"

text \<open>\<open>x / 2\<close> on an \<open>INT\<close>: integer division, truncating towards zero.\<close>

definition int_half :: "int \<Rightarrow> int" where
  "int_half x = (if 0 \<le> x then x div 2 else - ((- x) div 2))"

definition sql_opt :: "int option \<Rightarrow> sqlval" where
  "sql_opt x = (case x of None \<Rightarrow> SqlNull | Some i \<Rightarrow> SqlInt i)"

definition vacancy_tuple :: "vacancy_row \<Rightarrow> row" where
  "vacancy_tuple v =
     [SqlInt (vacancy_id v), sql_opt (employer_ref v), SqlText (vacancy_name v),
      SqlText (city v), SqlText (vacancy_url v), sql_opt (salary_from v), sql_opt (salary_to v)]"

text \<open>
  The statement of lines 202 to 205: \<open>avg_salary\<close> is \<open>AVG(salary_from + salary_to) / 2\<close>,
  a \<open>numeric\<close>; a row is selected when \<open>(salary_from + salary_to) / 2\<close>, an \<open>INT\<close>, is
  greater. A comparison with \<open>NULL\<close> selects nothing.
\<close>

definition higher_salary_rows :: "vacancy_row list \<Rightarrow> error + vacancy_row list" where
  "higher_salary_rows table =
     (case salary_sums table of
        Inl e \<Rightarrow> Inl e
      | Inr totals \<Rightarrow>
          (case sql_avg totals of
             None \<Rightarrow> Inr []
           | Some a \<Rightarrow>
               Inr (map fst (filter
                 (\<lambda>vs. case snd vs of None \<Rightarrow> False | Some x \<Rightarrow> of_int (int_half x) > a / 2)
                 (zip table totals)))))"

definition sql_higher_salary :: "vacancy_row list \<Rightarrow> error + row list" where
  "sql_higher_salary table =
     (case higher_salary_rows table of Inl e \<Rightarrow> Inl e | Inr vs \<Rightarrow> Inr (map vacancy_tuple vs))"

text \<open>
  A database server that accepts every connection and holds the given table of
  vacancies; \<open>other\<close> gives the results of the statements that are not modelled.
\<close>

definition postgres :: "vacancy_row list \<Rightarrow> (statement \<Rightarrow> error + row list) \<Rightarrow> driver" where
  "postgres table other =
     \<lparr>pg_connect = (\<lambda>h u p d pw. Inr 1),
      pg_execute = (\<lambda>st. if st = SelectHigherSalary then sql_higher_salary table else other st)\<rparr>"

text \<open>A server that refuses every connection.\<close>

definition postgres_down :: driver where
  "postgres_down =
     \<lparr>pg_connect = (\<lambda>h u p d pw. Inl (DatabaseError (of_ascii ''connection refused''))),
      pg_execute = (\<lambda>st. Inr [])\<rparr>"

subsection \<open>Notions used to state the properties of the data access layer\<close>

text \<open>
  The midpoint salary of a vacancy, the average of its two bounds, and the average of the
  midpoints of a table, as the specification words them.
\<close>

definition midpoint :: "vacancy_row \<Rightarrow> rat option" where
  "midpoint v =
     (case salary_from v of
        None \<Rightarrow> None
      | Some a \<Rightarrow> (case salary_to v of None \<Rightarrow> None | Some b \<Rightarrow> Some ((of_int a + of_int b) / 2)))"

definition average_midpoint :: "vacancy_row list \<Rightarrow> rat option" where
  "average_midpoint table =
     (let ms = concat (map (\<lambda>v. case midpoint v of None \<Rightarrow> [] | Some m \<Rightarrow> [m]) table)
      in if ms = [] then None else Some (sum_list ms / of_int (int (length ms))))"

definition above_average :: "vacancy_row list \<Rightarrow> vacancy_row list" where
  "above_average table =
     filter (\<lambda>v. case midpoint v of
                   None \<Rightarrow> False
                 | Some m \<Rightarrow> (case average_midpoint table of None \<Rightarrow> False | Some a \<Rightarrow> m > a))
       table"

definition example_vacancy :: "int \<Rightarrow> int \<Rightarrow> int \<Rightarrow> vacancy_row" where
  "example_vacancy i lo hi =
     \<lparr>vacancy_id = i, employer_ref = Some 1, vacancy_name = of_ascii ''Engineer'',
      city = of_ascii ''City'', vacancy_url = of_ascii ''v.url'',
      salary_from = Some lo, salary_to = Some hi\<rparr>"

definition example_table :: "vacancy_row list" where
  "example_table = [example_vacancy 10 100 101, example_vacancy 11 100 100]"

definition no_results :: "statement \<Rightarrow> error + row list" where
  "no_results st = Inr []"

definition example_db :: db_manager where
  "example_db = DBManager_init [(of_ascii ''host'', of_ascii ''localhost''),
     (of_ascii ''user'', of_ascii ''postgres''), (of_ascii ''dbname'', of_ascii ''hh'')]"

definition no_float :: "pystr \<Rightarrow> rat option" where
  "no_float t = None"

definition python_keyword :: pystr where
  "python_keyword = of_ascii ''python developer''"

section \<open>Properties of the API client\<close>

subsection \<open>Auxiliary facts\<close>

lemma page_of_setitem: "page_of (py_setitem ps k_page (JInt p)) = Some p"
  by (simp add: page_of_def py_get_def py_setitem_def update_conv')

lemma first_empty_ge: "i \<le> first_empty pages i n"
proof (induction n arbitrary: i)
  case 0
  show ?case by simp
next
  case (Suc n)
  have "Suc i \<le> first_empty pages (Suc i) n" by (rule Suc.IH)
  then show ?case by simp
qed

lemma first_empty_le: "first_empty pages i n \<le> i + n"
proof (induction n arbitrary: i)
  case 0
  show ?case by simp
next
  case (Suc n)
  have "first_empty pages (Suc i) n \<le> Suc i + n" by (rule Suc.IH)
  then show ?case by simp
qed

lemma first_empty_nonempty: "i \<le> j \<Longrightarrow> j < first_empty pages i n \<Longrightarrow> pages j \<noteq> []"
proof (induction n arbitrary: i)
  case 0
  then show ?case by simp
next
  case (Suc n)
  show ?case
  proof (cases "pages i = []")
    case True
    with Suc.prems show ?thesis by simp
  next
    case False
    show ?thesis
    proof (cases "j = i")
      case True
      with False show ?thesis by simp
    next
      case ne: False
      with Suc.prems False have "Suc i \<le> j" "j < first_empty pages (Suc i) n" by simp_all
      then show ?thesis by (rule Suc.IH)
    qed
  qed
qed

lemma first_empty_stops: "first_empty pages i n < i + n \<Longrightarrow> pages (first_empty pages i n) = []"
proof (induction n arbitrary: i)
  case 0
  then show ?case by simp
next
  case (Suc n)
  show ?case
  proof (cases "pages i = []")
    case True
    then show ?thesis by simp
  next
    case False
    with Suc.prems have "first_empty pages (Suc i) n < Suc i + n" by simp
    then have "pages (first_empty pages (Suc i) n) = []" by (rule Suc.IH)
    with False show ?thesis by simp
  qed
qed

lemma connect_ok:
  assumes "srv (length (sent s)) (request_for ep s) = Response r"
    and "status_code r = 200" and "json_body r = Inr (JObj d)"
  shows "connect srv ep s = (Inr d, s\<lparr>sent := sent s @ [request_for ep s]\<rparr>)"
  using assms by (simp add: connect_def private_connect_def Let_def)

lemma request_for_at:
  assumes "map_of (params s) k_page = Some (JInt (int p))"
  shows "request_for None s = request_at s p"
  using assms by (simp add: request_for_def request_at_def py_setitem_def update_triv)

lemma loop_pages:
  assumes "map_of (params s) k_page = Some (JInt (int p))"
    and "max_pages = int (p + n)"
    and "\<And>i. p \<le> i \<Longrightarrow> i < min (Suc (first_empty pages p n)) (p + n) \<Longrightarrow>
           \<exists>r d. srv (length (sent s) + (i - p)) (request_at s i) = Response r
             \<and> status_code r = 200 \<and> json_body r = Inr (JObj d)
             \<and> py_get d k_items (JList []) = JList (pages i)"
  shows "fst (vacancies_loop srv max_pages s) = Inr ()
       \<and> vacancies (snd (vacancies_loop srv max_pages s))
           = vacancies s @ concat (map pages [p..<first_empty pages p n])
       \<and> sent (snd (vacancies_loop srv max_pages s))
           = sent s @ map (request_at s) [p..<min (Suc (first_empty pages p n)) (p + n)]"
  using assms
proof (induction n arbitrary: s p)
  case 0
  then have "page_of (params s) = Some (int p)"
    by (simp add: page_of_def py_get_def)
  with 0(2) show ?case by (simp add: vacancies_loop.simps)
next
  case (Suc n)
  let ?k = "first_empty pages p (Suc n)"
  have pg: "page_of (params s) = Some (int p)"
    using Suc.prems(1) by (simp add: page_of_def py_get_def)
  have lt: "int p < max_pages" using Suc.prems(2) by simp
  have "p < min (Suc ?k) (p + Suc n)"
    using first_empty_ge [of p pages "Suc n"] by simp
  from Suc.prems(3) [OF le_refl this]
  obtain r d where r: "srv (length (sent s)) (request_at s p) = Response r"
    "status_code r = 200" "json_body r = Inr (JObj d)"
    "py_get d k_items (JList []) = JList (pages p)"
    by auto
  have rq: "request_for None s = request_at s p"
    by (rule request_for_at [OF Suc.prems(1)])
  define s1 where "s1 = s\<lparr>sent := sent s @ [request_at s p]\<rparr>"
  have con: "connect srv None s = (Inr d, s1)"
    using connect_ok [of srv s None r d] r rq by (simp add: s1_def)
  show ?case
  proof (cases "pages p = []")
    case True
    have "vacancies_loop srv max_pages s = (Inr (), s1)"
      using pg lt con r(4) True by (simp add: vacancies_loop.simps [of srv max_pages s])
    with True show ?thesis by (simp add: s1_def)
  next
    case False
    define s2 where "s2 = s1\<lparr>vacancies := vacancies s1 @ pages p,
       params := py_setitem (params s1) k_page (JInt (int p + 1))\<rparr>"
    have step: "vacancies_loop srv max_pages s = vacancies_loop srv max_pages s2"
      using pg lt con r(4) False
      by (simp add: vacancies_loop.simps [of srv max_pages s] s2_def)
    have k: "?k = first_empty pages (Suc p) n" using False by simp
    have at: "request_at s2 i = request_at s i" for i
      by (simp add: request_at_def s2_def s1_def py_setitem_def)
    have p1: "map_of (params s2) k_page = Some (JInt (int (Suc p)))"
      by (simp add: s2_def py_setitem_def update_conv')
    have p2: "max_pages = int (Suc p + n)" using Suc.prems(2) by simp
    have p3: "\<exists>r d. srv (length (sent s2) + (i - Suc p)) (request_at s2 i) = Response r
             \<and> status_code r = 200 \<and> json_body r = Inr (JObj d)
             \<and> py_get d k_items (JList []) = JList (pages i)"
      if "Suc p \<le> i" "i < min (Suc (first_empty pages (Suc p) n)) (Suc p + n)" for i
    proof -
      have "p \<le> i" "i < min (Suc ?k) (p + Suc n)" using that k by simp_all
      from Suc.prems(3) [OF this]
      have "\<exists>r d. srv (length (sent s) + (i - p)) (request_at s i) = Response r
             \<and> status_code r = 200 \<and> json_body r = Inr (JObj d)
             \<and> py_get d k_items (JList []) = JList (pages i)" .
      moreover have "length (sent s2) + (i - Suc p) = length (sent s) + (i - p)"
        using that(1) by (simp add: s2_def s1_def)
      ultimately show ?thesis by (simp add: at)
    qed
    define K where "K = first_empty pages (Suc p) n"
    define M where "M = min (Suc K) (Suc p + n)"
    have ih: "fst (vacancies_loop srv max_pages s2) = Inr ()
       \<and> vacancies (snd (vacancies_loop srv max_pages s2))
           = vacancies s2 @ concat (map pages [Suc p..<K])
       \<and> sent (snd (vacancies_loop srv max_pages s2))
           = sent s2 @ map (request_at s2) [Suc p..<M]"
      unfolding K_def M_def by (rule Suc.IH [of s2 "Suc p", OF p1 p2 p3])
    have kge: "Suc p \<le> K" unfolding K_def by (rule first_empty_ge)
    then have u1: "[p..<K] = p # [Suc p..<K]"
      by (simp add: upt_conv_Cons)
    have "Suc p \<le> M" using kge by (simp add: M_def)
    then have u2: "[p..<M] = p # [Suc p..<M]"
      by (simp add: upt_conv_Cons)
    have v2: "vacancies s2 = vacancies s @ pages p" "sent s2 = sent s @ [request_at s p]"
      by (simp_all add: s2_def s1_def)
    have ats: "map (request_at s2) xs = map (request_at s) xs" for xs
      by (simp add: at)
    have kK: "?k = K" "min (Suc K) (p + Suc n) = M"
      using k by (simp_all add: K_def M_def)
    have g: "fst (vacancies_loop srv max_pages s) = Inr ()
       \<and> vacancies (snd (vacancies_loop srv max_pages s))
           = vacancies s @ concat (map pages [p..<K])
       \<and> sent (snd (vacancies_loop srv max_pages s))
           = sent s @ map (request_at s) [p..<M]"
      unfolding step u1 u2 using ih by (simp add: v2 ats)
    then show ?thesis by (simp only: kK)
  qed
qed

lemma setup_page:
  "map_of (py_setitem (py_setitem ps k_employer_id e) k_page (JInt 0)) k_page = Some (JInt (int 0))"
  by (simp add: py_setitem_def update_conv')

lemma paged_server_page:
  "paged_server ps n (page_request s e i)
     = Response \<lparr>status_code = 200, resp_text = [],
         json_body = Inr (JObj [(k_items, JList (nth_page ps i))])\<rparr>"
  by (simp add: paged_server_def page_request_def page_of_setitem)

lemma paged_server_ok:
  "\<exists>r d. paged_server ps n (page_request s e i) = Response r
      \<and> status_code r = 200 \<and> json_body r = Inr (JObj d)
      \<and> py_get d k_items (JList []) = JList (nth_page ps i)"
  by (simp add: paged_server_page py_get_def)

lemma first_empty_example: "first_empty (nth_page example_pages) 0 (nat 5) = 2"
  by (simp add: eval_nat_numeral nth_page_def example_pages_def)

lemma sent_HHVacanciesAPI_init: "sent HHVacanciesAPI_init = []"
  by (simp add: HHVacanciesAPI_init_def HeadHunterAPI_init_def hh_api.defs)

subsection \<open>Pagination\<close>

text \<open>
  Claim C1. Let \<open>max_pages\<close> be non-negative and let every page request that the method
  issues be answered with status 200 and a dictionary whose \<open>items\<close> entry (the empty list
  when absent) is the list \<open>pages i\<close>. Let \<open>k\<close> be the index of the first empty page among
  the first \<open>max_pages\<close> pages, and \<open>max_pages\<close> if none is empty. Then the method returns
  the concatenation of pages \<open>0, \<dots>, k - 1\<close>, in page order and in-page order, duplicates
  kept; it issues the requests for pages \<open>0, 1, \<dots>\<close> in this order, one for each page up to
  and including the empty one, so at most \<open>max_pages\<close> requests; the request for page \<open>i\<close>
  carries the page parameter \<open>i\<close>, starting from 0; and the empty page is not accumulated.
\<close>

theorem C1_pagination:
  fixes pages :: "nat \<Rightarrow> json list"
  assumes "0 \<le> max_pages"
    and "\<And>i. i < min (Suc (first_empty pages 0 (nat max_pages))) (nat max_pages) \<Longrightarrow>
           \<exists>r d. srv (length (sent s) + i) (page_request s employer_id i) = Response r
             \<and> status_code r = 200 \<and> json_body r = Inr (JObj d)
             \<and> py_get d k_items (JList []) = JList (pages i)"
  shows "fst (get_vacancies_by_employer_id srv employer_id max_pages s)
           = Inr (concat (map pages [0..<first_empty pages 0 (nat max_pages)]))
       \<and> sent (snd (get_vacancies_by_employer_id srv employer_id max_pages s))
           = sent s @ map (page_request s employer_id)
               [0..<min (Suc (first_empty pages 0 (nat max_pages))) (nat max_pages)]
       \<and> length (sent (snd (get_vacancies_by_employer_id srv employer_id max_pages s)))
           \<le> length (sent s) + nat max_pages
       \<and> (\<forall>i. py_get (req_params (page_request s employer_id i)) k_page JNull = JInt (int i))
       \<and> first_empty pages 0 (nat max_pages) \<le> nat max_pages
       \<and> (\<forall>i < first_empty pages 0 (nat max_pages). pages i \<noteq> [])
       \<and> (first_empty pages 0 (nat max_pages) < nat max_pages
            \<longrightarrow> pages (first_empty pages 0 (nat max_pages)) = [])"
proof -
  define s3 where "s3 = s\<lparr>params := py_setitem (py_setitem (params s) k_employer_id employer_id)
      k_page (JInt 0), vacancies := []\<rparr>"
  define k where "k = first_empty pages 0 (nat max_pages)"
  define m where "m = min (Suc k) (nat max_pages)"
  have at: "request_at s3 i = page_request s employer_id i" for i
    by (simp add: request_at_def page_request_def s3_def py_setitem_def)
  have p1: "map_of (params s3) k_page = Some (JInt (int 0))"
    unfolding s3_def using setup_page by simp
  have p2: "max_pages = int (0 + nat max_pages)" using assms(1) by simp
  have p3: "\<exists>r d. srv (length (sent s3) + (i - 0)) (request_at s3 i) = Response r
             \<and> status_code r = 200 \<and> json_body r = Inr (JObj d)
             \<and> py_get d k_items (JList []) = JList (pages i)"
    if "0 \<le> i" "i < min (Suc (first_empty pages 0 (nat max_pages))) (0 + nat max_pages)" for i
    using assms(2) [of i] that by (simp add: at) (simp add: s3_def)
  have loop: "fst (vacancies_loop srv max_pages s3) = Inr ()
       \<and> vacancies (snd (vacancies_loop srv max_pages s3))
           = vacancies s3 @ concat (map pages [0..<k])
       \<and> sent (snd (vacancies_loop srv max_pages s3))
           = sent s3 @ map (request_at s3) [0..<m]"
    using loop_pages [of s3 0 max_pages "nat max_pages" pages srv, OF p1 p2 p3]
    by (simp add: k_def m_def)
  have ats: "map (request_at s3) xs = map (page_request s employer_id) xs" for xs
    by (simp add: at)
  have unf: "get_vacancies_by_employer_id srv employer_id max_pages s
      = (case vacancies_loop srv max_pages s3 of
           (Inl e, s4) \<Rightarrow> (Inl e, s4)
         | (Inr u, s4) \<Rightarrow> (Inr (vacancies s4), s4))"
    by (simp add: get_vacancies_by_employer_id_def Let_def s3_def)
  obtain r4 s4 where l: "vacancies_loop srv max_pages s3 = (r4, s4)"
    by (cases "vacancies_loop srv max_pages s3")
  with loop have "r4 = Inr ()" by simp
  with l unf have res: "get_vacancies_by_employer_id srv employer_id max_pages s
      = (Inr (vacancies (snd (vacancies_loop srv max_pages s3))), snd (vacancies_loop srv max_pages s3))"
    by simp
  have c1: "fst (get_vacancies_by_employer_id srv employer_id max_pages s) = Inr (concat (map pages [0..<k]))"
    using loop by (simp add: res s3_def)
  have c2: "sent (snd (get_vacancies_by_employer_id srv employer_id max_pages s))
           = sent s @ map (page_request s employer_id) [0..<m]"
    using loop by (simp add: res ats) (simp add: s3_def)
  have "m \<le> nat max_pages" by (simp add: m_def)
  then have c3: "length (sent (snd (get_vacancies_by_employer_id srv employer_id max_pages s)))
           \<le> length (sent s) + nat max_pages"
    by (simp add: c2)
  have c4: "\<forall>i. py_get (req_params (page_request s employer_id i)) k_page JNull = JInt (int i)"
    by (simp add: page_request_def py_get_def py_setitem_def update_conv')
  have c5: "k \<le> nat max_pages"
    using first_empty_le [of pages 0 "nat max_pages"] by (simp add: k_def)
  have c6: "\<forall>i < k. pages i \<noteq> []"
    using first_empty_nonempty [of 0 _ pages "nat max_pages"] by (simp add: k_def)
  have c7: "k < nat max_pages \<longrightarrow> pages k = []"
    using first_empty_stops [of pages 0 "nat max_pages"] by (simp add: k_def)
  from c1 c2 c3 c4 c5 c6 c7 show ?thesis
    unfolding k_def m_def by blast
qed

theorem C1_pagination_witness:
  "(0::int) \<le> 5
   \<and> fst (get_vacancies_by_employer_id (paged_server example_pages) (JStr (of_ascii ''1740'')) 5
        HHVacanciesAPI_init) = Inr [item ''1'', item ''2'', item ''1'']
   \<and> length (sent (snd (get_vacancies_by_employer_id (paged_server example_pages)
        (JStr (of_ascii ''1740'')) 5 HHVacanciesAPI_init))) = 3"
proof -
  have h: "(0::int) \<le> 5" by simp
  note t = C1_pagination [of 5 "nth_page example_pages" "paged_server example_pages"
      HHVacanciesAPI_init "JStr (of_ascii ''1740'')", OF h paged_server_ok]
  have s0: "sent HHVacanciesAPI_init = []"
    by (simp add: HHVacanciesAPI_init_def HeadHunterAPI_init_def hh_api.defs)
  have c: "concat (map (nth_page example_pages) [0..<2]) = [item ''1'', item ''2'', item ''1'']"
    by (simp add: eval_nat_numeral nth_page_def example_pages_def)
  from t [unfolded first_empty_example] show ?thesis
    by (simp add: c s0)
qed

text \<open>
  Claim C9. When \<open>max_pages\<close> is zero or negative, the method returns the empty list and
  issues no request: the loop condition fails at once, the page cursor being 0.
\<close>

theorem C9_nonpositive_max_pages: 
  assumes "max_pages \<le> 0"
  shows "fst (get_vacancies_by_employer_id srv employer_id max_pages s) = Inr []
       \<and> sent (snd (get_vacancies_by_employer_id srv employer_id max_pages s)) = sent s"
  using assms
  by (simp add: get_vacancies_by_employer_id_def Let_def vacancies_loop.simps page_of_setitem)

theorem C9_nonpositive_max_pages_witness:
  "(- 3::int) \<le> 0
   \<and> fst (get_vacancies_by_employer_id (paged_server example_pages) (JStr (of_ascii ''1740'')) (- 3)
        HHVacanciesAPI_init) = Inr []
   \<and> sent (snd (get_vacancies_by_employer_id (paged_server example_pages)
        (JStr (of_ascii ''1740'')) (- 3) HHVacanciesAPI_init)) = []"
proof -
  have h: "(- 3::int) \<le> 0" by simp
  have s0: "sent HHVacanciesAPI_init = []"
    by (simp add: HHVacanciesAPI_init_def HeadHunterAPI_init_def hh_api.defs)
  from C9_nonpositive_max_pages [OF h, of "paged_server example_pages" "JStr (of_ascii ''1740'')" HHVacanciesAPI_init]
  show ?thesis by (simp add: s0)
qed

subsection \<open>The result of connect\<close>

text \<open>
  Claim C5. When the response to the request has status 200 and its body decodes to a
  dictionary, \<open>connect\<close> returns that dictionary: the same keys with the same values, in
  the same order.
\<close>

theorem C5_connect_returns_body:
  assumes "srv (length (sent s)) (request_for ep s) = Response r"
    and "status_code r = 200"
    and "json_body r = Inr (JObj body)"
  shows "fst (connect srv ep s) = Inr body"
  using connect_ok [of srv s ep r body] assms by simp

theorem C5_connect_returns_body_witness:
  "fst (connect (const_server (Response (ok_response [(of_ascii ''id'', JStr (of_ascii ''123''))])))
          None HeadHunterAPI_init) = Inr [(of_ascii ''id'', JStr (of_ascii ''123''))]"
proof -
  let ?d = "[(of_ascii ''id'', JStr (of_ascii ''123''))]"
  have 1: "const_server (Response (ok_response ?d)) (length (sent HeadHunterAPI_init))
      (request_for None HeadHunterAPI_init) = Response (ok_response ?d)"
    by (simp add: const_server_def)
  have 2: "status_code (ok_response ?d) = 200" by (simp add: ok_response_def)
  have 3: "json_body (ok_response ?d) = Inr (JObj ?d)" by (simp add: ok_response_def)
  from C5_connect_returns_body [where srv = "const_server (Response (ok_response ?d))"
      and s = HeadHunterAPI_init and ep = None and r = "ok_response ?d" and body = ?d] 1 2 3
  show ?thesis by simp
qed

lemma sublist_mid: "sublist m (a @ m @ b)"
  by (auto simp: sublist_def)

lemma sublist_end: "sublist m (a @ m)"
  using sublist_mid [of m a "[]"] by simp

lemma connect_status:
  assumes "srv (length (sent s)) (request_for ep s) = Response r" "status_code r \<noteq> 200"
  shows "fst (connect srv ep s) = Inl (APIError (msg_api_status @ str_int (status_code r)
            @ of_ascii '' - '' @ resp_text r))"
  using assms by (simp add: connect_def private_connect_def Let_def)

lemma connect_transport:
  assumes "srv (length (sent s)) (request_for ep s) = RequestException m"
  shows "fst (connect srv ep s) = Inl (APIError (msg_api_request @ m))"
  using assms by (simp add: connect_def private_connect_def Let_def)

lemma get_employer_by_id_error:
  "fst (connect srv (Some (endpoint s @ employer_id)) s) = Inl e
   \<Longrightarrow> fst (get_employer_by_id srv employer_id s) = Inl e"
  by (auto simp: get_employer_by_id_def Let_def split: prod.splits sum.splits)

lemma fetch_employers_error:
  "fst (connect srv None (s\<lparr>employers := []\<rparr>)) = Inl e
   \<Longrightarrow> fst (fetch_employers srv s) = Inl e"
  by (auto simp: fetch_employers_def Let_def split: prod.splits sum.splits)

lemma vacancies_loop_error:
  "page_of (params s) = Some p \<Longrightarrow> p < max_pages \<Longrightarrow> fst (connect srv None s) = Inl e
   \<Longrightarrow> fst (vacancies_loop srv max_pages s) = Inl e"
  by (auto simp: vacancies_loop.simps [of srv max_pages s] split: prod.splits sum.splits)

lemma str_int_404: "str_int 404 = of_ascii ''404''"
  by (simp add: str_int_def nat_digits.simps of_ascii_def)

lemma connect_not_found:
  "fst (connect (const_server (Response not_found)) ep s)
     = Inl (APIError (msg_api_status @ of_ascii ''404 - Not Found''))"
  by (simp add: connect_def private_connect_def Let_def const_server_def not_found_def
      str_int_404) (simp add: of_ascii_def)

lemma connect_network_error:
  "fst (connect (const_server (RequestException network_error)) ep s)
     = Inl (APIError (msg_api_request @ network_error))"
  by (simp add: connect_def private_connect_def Let_def const_server_def)

lemma loop_advance:
  assumes "map_of (params s) k_page = Some (JInt (int p))"
    and "int (p + n) \<le> max_pages"
    and "\<And>i. p \<le> i \<Longrightarrow> i < p + n \<Longrightarrow>
           \<exists>r d. srv (length (sent s) + (i - p)) (request_at s i) = Response r
             \<and> status_code r = 200 \<and> json_body r = Inr (JObj d)
             \<and> py_get d k_items (JList []) = JList (pages i) \<and> pages i \<noteq> []"
  shows "vacancies_loop srv max_pages s
       = vacancies_loop srv max_pages
           (s\<lparr>sent := sent s @ map (request_at s) [p..<p + n],
              vacancies := vacancies s @ concat (map pages [p..<p + n]),
              params := py_setitem (params s) k_page (JInt (int (p + n)))\<rparr>)"
  using assms
proof (induction n arbitrary: s p)
  case 0
  have "py_setitem (params s) k_page (JInt (int p)) = params s"
    using "0.prems"(1) by (simp add: py_setitem_def update_triv)
  then show ?case by simp
next
  case (Suc n)
  have pg: "page_of (params s) = Some (int p)"
    using Suc.prems(1) by (simp add: page_of_def py_get_def)
  have lt: "int p < max_pages" using Suc.prems(2) by simp
  have "p < p + Suc n" by simp
  from Suc.prems(3) [OF le_refl this]
  obtain r d where r: "srv (length (sent s)) (request_at s p) = Response r"
    "status_code r = 200" "json_body r = Inr (JObj d)"
    "py_get d k_items (JList []) = JList (pages p)" "pages p \<noteq> []"
    by auto
  have rq: "request_for None s = request_at s p"
    by (rule request_for_at [OF Suc.prems(1)])
  define s1 where "s1 = s\<lparr>sent := sent s @ [request_at s p]\<rparr>"
  have con: "connect srv None s = (Inr d, s1)"
    using connect_ok [of srv s None r d] r rq by (simp add: s1_def)
  define s2 where "s2 = s1\<lparr>vacancies := vacancies s1 @ pages p,
       params := py_setitem (params s1) k_page (JInt (int p + 1))\<rparr>"
  have step: "vacancies_loop srv max_pages s = vacancies_loop srv max_pages s2"
    using pg lt con r(4) r(5)
    by (simp add: vacancies_loop.simps [of srv max_pages s] s2_def)
  have at: "request_at s2 i = request_at s i" for i
    by (simp add: request_at_def s2_def s1_def py_setitem_def)
  have p1: "map_of (params s2) k_page = Some (JInt (int (Suc p)))"
    by (simp add: s2_def py_setitem_def update_conv')
  have p2: "int (Suc p + n) \<le> max_pages" using Suc.prems(2) by simp
  have p3: "\<exists>r d. srv (length (sent s2) + (i - Suc p)) (request_at s2 i) = Response r
             \<and> status_code r = 200 \<and> json_body r = Inr (JObj d)
             \<and> py_get d k_items (JList []) = JList (pages i) \<and> pages i \<noteq> []"
    if "Suc p \<le> i" "i < Suc p + n" for i
  proof -
    have "p \<le> i" "i < p + Suc n" using that by simp_all
    from Suc.prems(3) [OF this]
    have "\<exists>r d. srv (length (sent s) + (i - p)) (request_at s i) = Response r
             \<and> status_code r = 200 \<and> json_body r = Inr (JObj d)
             \<and> py_get d k_items (JList []) = JList (pages i) \<and> pages i \<noteq> []" .
    moreover have "length (sent s2) + (i - Suc p) = length (sent s) + (i - p)"
      using that(1) by (simp add: s2_def s1_def)
    ultimately show ?thesis by (simp add: at)
  qed
  define M where "M = Suc p + n"
  have ih: "vacancies_loop srv max_pages s2
       = vacancies_loop srv max_pages
           (s2\<lparr>sent := sent s2 @ map (request_at s2) [Suc p..<M],
              vacancies := vacancies s2 @ concat (map pages [Suc p..<M]),
              params := py_setitem (params s2) k_page (JInt (int M))\<rparr>)"
    unfolding M_def by (rule Suc.IH [of s2 "Suc p", OF p1 p2 p3])
  have "Suc p \<le> M" by (simp add: M_def)
  then have u: "[p..<M] = p # [Suc p..<M]" by (simp add: upt_conv_Cons)
  have ats: "map (request_at s2) xs = map (request_at s) xs" for xs
    by (simp add: at)
  have st: "s2\<lparr>sent := sent s2 @ map (request_at s2) [Suc p..<M],
              vacancies := vacancies s2 @ concat (map pages [Suc p..<M]),
              params := py_setitem (params s2) k_page (JInt (int M))\<rparr>
       = s\<lparr>sent := sent s @ map (request_at s) [p..<M],
              vacancies := vacancies s @ concat (map pages [p..<M]),
              params := py_setitem (params s) k_page (JInt (int M))\<rparr>"
    unfolding u ats by (simp add: s2_def s1_def py_setitem_def)
  have "p + Suc n = M" by (simp add: M_def)
  then show ?case using step ih st by simp
qed

lemma loop_reaches_page:
  assumes "int k \<le> max_pages"
    and "\<And>i. i < k \<Longrightarrow>
           \<exists>r d. srv (length (sent s) + i) (page_request s employer_id i) = Response r
             \<and> status_code r = 200 \<and> json_body r = Inr (JObj d)
             \<and> py_get d k_items (JList []) = JList (pages i) \<and> pages i \<noteq> []"
  shows "vacancies_loop srv max_pages
           (s\<lparr>params := py_setitem (py_setitem (params s) k_employer_id employer_id) k_page (JInt 0),
              vacancies := []\<rparr>)
       = vacancies_loop srv max_pages (page_state s employer_id pages k)"
proof -
  define s3 where "s3 = s\<lparr>params := py_setitem (py_setitem (params s) k_employer_id employer_id)
      k_page (JInt 0), vacancies := []\<rparr>"
  have at: "request_at s3 i = page_request s employer_id i" for i
    by (simp add: request_at_def page_request_def s3_def py_setitem_def)
  have ats: "map (request_at s3) xs = map (page_request s employer_id) xs" for xs
    by (simp add: at)
  have p1: "map_of (params s3) k_page = Some (JInt (int 0))"
    unfolding s3_def using setup_page by simp
  have p2: "int (0 + k) \<le> max_pages" using assms(1) by simp
  have p3: "\<exists>r d. srv (length (sent s3) + (i - 0)) (request_at s3 i) = Response r
             \<and> status_code r = 200 \<and> json_body r = Inr (JObj d)
             \<and> py_get d k_items (JList []) = JList (pages i) \<and> pages i \<noteq> []"
    if "0 \<le> i" "i < 0 + k" for i
    using assms(2) [of i] that by (simp add: at) (simp add: s3_def)
  have "s3\<lparr>sent := sent s3 @ map (request_at s3) [0..<0 + k],
              vacancies := vacancies s3 @ concat (map pages [0..<0 + k]),
              params := py_setitem (params s3) k_page (JInt (int (0 + k)))\<rparr>
      = page_state s employer_id pages k"
    by (simp add: ats) (simp add: s3_def page_state_def py_setitem_def)
  with loop_advance [of s3 0 k max_pages srv pages, OF p1 p2 p3]
  show ?thesis by (simp add: s3_def)
qed

lemma fails_at_page:
  assumes "int k < max_pages"
    and "\<And>i. i < k \<Longrightarrow>
           \<exists>r d. srv (length (sent s) + i) (page_request s employer_id i) = Response r
             \<and> status_code r = 200 \<and> json_body r = Inr (JObj d)
             \<and> py_get d k_items (JList []) = JList (pages i) \<and> pages i \<noteq> []"
    and "fst (connect srv None (page_state s employer_id pages k)) = Inl e"
  shows "fst (get_vacancies_by_employer_id srv employer_id max_pages s) = Inl e"
proof -
  have le: "int k \<le> max_pages" using assms(1) by simp
  have pg: "page_of (params (page_state s employer_id pages k)) = Some (int k)"
    by (simp add: page_state_def page_of_setitem)
  from vacancies_loop_error [OF pg assms(1) assms(3)]
  have "fst (vacancies_loop srv max_pages (page_state s employer_id pages k)) = Inl e" .
  with loop_reaches_page [of k max_pages srv s employer_id pages, OF le assms(2)]
  have "fst (vacancies_loop srv max_pages
           (s\<lparr>params := py_setitem (py_setitem (params s) k_employer_id employer_id) k_page (JInt 0),
              vacancies := []\<rparr>)) = Inl e"
    by simp
  then show ?thesis
    by (auto simp: get_vacancies_by_employer_id_def Let_def split: prod.splits sum.splits)
qed

lemma page_state_request:
  "length (sent (page_state s employer_id pages k)) = length (sent s) + k"
  "request_for None (page_state s employer_id pages k) = page_request s employer_id k"
  by (simp_all add: page_state_def request_for_def page_request_def)

text \<open>
  Claim C6. A response whose status is not 200 makes \<open>connect\<close> fail with an \<open>APIError\<close>
  whose message contains the decimal status code and the response text; a transport
  failure makes it fail with an \<open>APIError\<close> whose message contains the transport message.
  No method of the client catches an error of \<open>connect\<close>: \<open>get_employer_by_id\<close>,
  \<open>search_employers_by_keyword\<close>, \<open>get_top_employers\<close> (on a valid argument), every
  iteration of the pagination loop and \<open>get_vacancies_by_employer_id\<close> fail with the very
  error with which their call of \<open>connect\<close> fails. For \<open>get_vacancies_by_employer_id\<close> this
  holds of every page: when the pages \<open>0, \<dots>, k - 1\<close> are answered with non-empty items and
  \<open>connect\<close> fails on page \<open>k < max_pages\<close>, the method fails with that error and returns
  nothing of what it has accumulated; in particular a status other than 200 and a
  transport failure on page \<open>k\<close> reach the caller as the \<open>APIError\<close> described above.
\<close>

theorem C6_connect_failures:
  fixes s :: "'a hh_api_scheme" and se :: hh_employer_api and ss :: hh_employers_api
    and sv :: hh_vacancies_api
  shows
  "(srv (length (sent s)) (request_for ep s) = Response r \<and> status_code r \<noteq> 200 \<longrightarrow>
      (\<exists>m. fst (connect srv ep s) = Inl (APIError m)
         \<and> sublist (str_int (status_code r)) m \<and> sublist (resp_text r) m))
   \<and> (srv (length (sent s)) (request_for ep s) = RequestException msg \<longrightarrow>
      (\<exists>m. fst (connect srv ep s) = Inl (APIError m) \<and> sublist msg m))
   \<and> (fst (connect srv (Some (endpoint se @ employer_id)) se) = Inl e \<longrightarrow>
        fst (get_employer_by_id srv employer_id se) = Inl e)
   \<and> (fst (connect srv None (ss\<lparr>params := [(k_text, keyword),
          (k_only_with_vacancies, JStr (of_ascii ''true'')), (k_area, JStr (of_ascii ''113''))],
          employers := []\<rparr>)) = Inl e \<longrightarrow>
        fst (search_employers_by_keyword srv keyword ss) = Inl e)
   \<and> (int_value top_n = Some n \<and> n \<le> 100
        \<and> fst (connect srv None (ss\<lparr>params := [(k_per_page, top_n),
          (k_sort_by, JStr (of_ascii ''by_vacancies_open'')), (k_area, JStr (of_ascii ''113''))],
          employers := []\<rparr>)) = Inl e \<longrightarrow>
        fst (get_top_employers srv top_n ss) = Inl e)
   \<and> (page_of (params sv) = Some p \<and> p < max_pages \<and> fst (connect srv None sv) = Inl e \<longrightarrow>
        fst (vacancies_loop srv max_pages sv) = Inl e)
   \<and> (0 < max_pages \<and> fst (connect srv None (sv\<lparr>params :=
          py_setitem (py_setitem (params sv) k_employer_id eid) k_page (JInt 0),
          vacancies := []\<rparr>)) = Inl e \<longrightarrow>
        fst (get_vacancies_by_employer_id srv eid max_pages sv) = Inl e)
   \<and> (int k < max_pages
        \<and> (\<forall>i<k. \<exists>r d. srv (length (sent sv) + i) (page_request sv eid i) = Response r
              \<and> status_code r = 200 \<and> json_body r = Inr (JObj d)
              \<and> py_get d k_items (JList []) = JList (pages i) \<and> pages i \<noteq> [])
        \<and> fst (connect srv None (page_state sv eid pages k)) = Inl e \<longrightarrow>
        fst (get_vacancies_by_employer_id srv eid max_pages sv) = Inl e)
   \<and> (int k < max_pages
        \<and> (\<forall>i<k. \<exists>r d. srv (length (sent sv) + i) (page_request sv eid i) = Response r
              \<and> status_code r = 200 \<and> json_body r = Inr (JObj d)
              \<and> py_get d k_items (JList []) = JList (pages i) \<and> pages i \<noteq> [])
        \<and> srv (length (sent sv) + k) (page_request sv eid k) = Response rk
        \<and> status_code rk \<noteq> 200 \<longrightarrow>
        fst (get_vacancies_by_employer_id srv eid max_pages sv)
          = Inl (APIError (msg_api_status @ str_int (status_code rk) @ of_ascii '' - ''
                   @ resp_text rk)))
   \<and> (int k < max_pages
        \<and> (\<forall>i<k. \<exists>r d. srv (length (sent sv) + i) (page_request sv eid i) = Response r
              \<and> status_code r = 200 \<and> json_body r = Inr (JObj d)
              \<and> py_get d k_items (JList []) = JList (pages i) \<and> pages i \<noteq> [])
        \<and> srv (length (sent sv) + k) (page_request sv eid k) = RequestException msgk \<longrightarrow>
        fst (get_vacancies_by_employer_id srv eid max_pages sv)
          = Inl (APIError (msg_api_request @ msgk)))"
proof -
  have a: "\<exists>m. fst (connect srv ep s) = Inl (APIError m)
         \<and> sublist (str_int (status_code r)) m \<and> sublist (resp_text r) m"
    if "srv (length (sent s)) (request_for ep s) = Response r" "status_code r \<noteq> 200"
  proof -
    let ?m = "msg_api_status @ str_int (status_code r) @ of_ascii '' - '' @ resp_text r"
    have "fst (connect srv ep s) = Inl (APIError ?m)"
      using connect_status [of srv s ep r] that by simp
    moreover have "sublist (str_int (status_code r)) ?m" by (rule sublist_mid)
    moreover have "sublist (resp_text r) ?m"
      using sublist_end [of "resp_text r" "msg_api_status @ str_int (status_code r) @ of_ascii '' - ''"]
      by simp
    ultimately show ?thesis by blast
  qed
  have b: "\<exists>m. fst (connect srv ep s) = Inl (APIError m) \<and> sublist msg m"
    if "srv (length (sent s)) (request_for ep s) = RequestException msg"
    using connect_transport [of srv s ep msg] that sublist_end [of msg msg_api_request] by blast
  have c: "fst (get_employer_by_id srv employer_id se) = Inl e"
    if "fst (connect srv (Some (endpoint se @ employer_id)) se) = Inl e"
    using that by (rule get_employer_by_id_error)
  have d: "fst (search_employers_by_keyword srv keyword ss) = Inl e"
    if "fst (connect srv None (ss\<lparr>params := [(k_text, keyword),
          (k_only_with_vacancies, JStr (of_ascii ''true'')), (k_area, JStr (of_ascii ''113''))],
          employers := []\<rparr>)) = Inl e"
    unfolding search_employers_by_keyword_def
    using that by (intro fetch_employers_error) simp
  have f: "fst (get_top_employers srv top_n ss) = Inl e"
    if "int_value top_n = Some n" "n \<le> 100"
      "fst (connect srv None (ss\<lparr>params := [(k_per_page, top_n),
          (k_sort_by, JStr (of_ascii ''by_vacancies_open'')), (k_area, JStr (of_ascii ''113''))],
          employers := []\<rparr>)) = Inl e"
  proof -
    have "get_top_employers srv top_n ss = fetch_employers srv (ss\<lparr>params := [(k_per_page, top_n),
          (k_sort_by, JStr (of_ascii ''by_vacancies_open'')), (k_area, JStr (of_ascii ''113''))]\<rparr>)"
      using that(1,2) by (simp add: get_top_employers_def)
    moreover have "fst (fetch_employers srv (ss\<lparr>params := [(k_per_page, top_n),
          (k_sort_by, JStr (of_ascii ''by_vacancies_open'')), (k_area, JStr (of_ascii ''113''))]\<rparr>)) = Inl e"
      using that(3) by (intro fetch_employers_error) simp
    ultimately show ?thesis by simp
  qed
  have g: "fst (vacancies_loop srv max_pages sv) = Inl e"
    if "page_of (params sv) = Some p" "p < max_pages" "fst (connect srv None sv) = Inl e"
    using that by (rule vacancies_loop_error)
  have h: "fst (get_vacancies_by_employer_id srv eid max_pages sv) = Inl e"
    if "0 < max_pages" "fst (connect srv None (sv\<lparr>params :=
          py_setitem (py_setitem (params sv) k_employer_id eid) k_page (JInt 0),
          vacancies := []\<rparr>)) = Inl e"
  proof -
    let ?s3 = "sv\<lparr>params := py_setitem (py_setitem (params sv) k_employer_id eid) k_page (JInt 0),
          vacancies := []\<rparr>"
    have "page_of (params ?s3) = Some 0" by (simp add: page_of_setitem)
    from vacancies_loop_error [OF this that(1) that(2)]
    have "fst (vacancies_loop srv max_pages ?s3) = Inl e" .
    then show ?thesis
      by (auto simp: get_vacancies_by_employer_id_def Let_def split: prod.splits sum.splits)
  qed
  have i: "fst (get_vacancies_by_employer_id srv eid max_pages sv) = Inl e"
    if "int k < max_pages"
      "\<forall>i<k. \<exists>r d. srv (length (sent sv) + i) (page_request sv eid i) = Response r
        \<and> status_code r = 200 \<and> json_body r = Inr (JObj d)
        \<and> py_get d k_items (JList []) = JList (pages i) \<and> pages i \<noteq> []"
      "fst (connect srv None (page_state sv eid pages k)) = Inl e"
    using fails_at_page [of k max_pages srv sv eid pages e] that by blast
  have j: "fst (get_vacancies_by_employer_id srv eid max_pages sv)
          = Inl (APIError (msg_api_status @ str_int (status_code rk) @ of_ascii '' - ''
                   @ resp_text rk))"
    if "int k < max_pages"
      "\<forall>i<k. \<exists>r d. srv (length (sent sv) + i) (page_request sv eid i) = Response r
        \<and> status_code r = 200 \<and> json_body r = Inr (JObj d)
        \<and> py_get d k_items (JList []) = JList (pages i) \<and> pages i \<noteq> []"
      "srv (length (sent sv) + k) (page_request sv eid k) = Response rk"
      "status_code rk \<noteq> 200"
  proof -
    have "fst (connect srv None (page_state sv eid pages k))
        = Inl (APIError (msg_api_status @ str_int (status_code rk) @ of_ascii '' - ''
                   @ resp_text rk))"
      using connect_status [of srv "page_state sv eid pages k" None rk] that(3,4)
      by (simp add: page_state_request)
    with fails_at_page [of k max_pages srv sv eid pages] that(1,2) show ?thesis by blast
  qed
  have l: "fst (get_vacancies_by_employer_id srv eid max_pages sv)
          = Inl (APIError (msg_api_request @ msgk))"
    if "int k < max_pages"
      "\<forall>i<k. \<exists>r d. srv (length (sent sv) + i) (page_request sv eid i) = Response r
        \<and> status_code r = 200 \<and> json_body r = Inr (JObj d)
        \<and> py_get d k_items (JList []) = JList (pages i) \<and> pages i \<noteq> []"
      "srv (length (sent sv) + k) (page_request sv eid k) = RequestException msgk"
  proof -
    have "fst (connect srv None (page_state sv eid pages k))
        = Inl (APIError (msg_api_request @ msgk))"
      using connect_transport [of srv "page_state sv eid pages k" None msgk] that(3)
      by (simp add: page_state_request)
    with fails_at_page [of k max_pages srv sv eid pages] that(1,2) show ?thesis by blast
  qed
  from a b c d f g h i j l show ?thesis by blast
qed

theorem C6_connect_failures_witness:
  "(\<exists>m. fst (connect (const_server (Response not_found)) None HeadHunterAPI_init) = Inl (APIError m)
        \<and> sublist (of_ascii ''404'') m \<and> sublist (of_ascii ''Not Found'') m)
   \<and> (\<exists>m. fst (connect (const_server (RequestException network_error)) None HeadHunterAPI_init)
          = Inl (APIError m) \<and> sublist network_error m)
   \<and> fst (get_employer_by_id (const_server (Response not_found)) (of_ascii ''12345'')
        HHEmployerAPI_init) = Inl (APIError (msg_api_status @ of_ascii ''404 - Not Found''))
   \<and> fst (search_employers_by_keyword (const_server (Response not_found)) (JStr (of_ascii ''bank''))
        HHEmployersAPI_init) = Inl (APIError (msg_api_status @ of_ascii ''404 - Not Found''))
   \<and> fst (get_top_employers (const_server (Response not_found)) (JInt 10)
        HHEmployersAPI_init) = Inl (APIError (msg_api_status @ of_ascii ''404 - Not Found''))
   \<and> fst (get_vacancies_by_employer_id (const_server (Response not_found)) (JStr (of_ascii ''1740'')) 20
        HHVacanciesAPI_init) = Inl (APIError (msg_api_status @ of_ascii ''404 - Not Found''))
   \<and> fst (get_vacancies_by_employer_id (const_server (RequestException network_error))
        (JStr (of_ascii ''1740'')) 20 HHVacanciesAPI_init)
        = Inl (APIError (msg_api_request @ network_error))
   \<and> fst (get_vacancies_by_employer_id
        (failing_after [[item ''1'', item ''2'']] (Response server_error))
        (JStr (of_ascii ''1740'')) 20 HHVacanciesAPI_init)
        = Inl (APIError (msg_api_status @ of_ascii ''500 - Internal Server Error''))
   \<and> fst (get_vacancies_by_employer_id
        (failing_after [[item ''1'', item ''2'']] (RequestException network_error))
        (JStr (of_ascii ''1740'')) 20 HHVacanciesAPI_init)
        = Inl (APIError (msg_api_request @ network_error))"
proof -
  let ?nf = "const_server (Response not_found)"
  let ?ne = "const_server (RequestException network_error)"
  let ?e = "APIError (msg_api_status @ of_ascii ''404 - Not Found'')"
  note t1 = C6_connect_failures [where srv = ?nf and s = HeadHunterAPI_init and ep = None
      and r = not_found and se = HHEmployerAPI_init and employer_id = "of_ascii ''12345''"
      and e = ?e and ss = HHEmployersAPI_init and keyword = "JStr (of_ascii ''bank'')"
      and top_n = "JInt 10" and n = 10 and sv = HHVacanciesAPI_init and max_pages = 20
      and eid = "JStr (of_ascii ''1740'')"]
  note t2 = C6_connect_failures [where srv = ?ne and s = HeadHunterAPI_init and ep = None
      and msg = network_error and sv = HHVacanciesAPI_init and max_pages = 20
      and eid = "JStr (of_ascii ''1740'')" and e = "APIError (msg_api_request @ network_error)"]
  have a: "\<exists>m. fst (connect ?nf None HeadHunterAPI_init) = Inl (APIError m)
        \<and> sublist (of_ascii ''404'') m \<and> sublist (of_ascii ''Not Found'') m"
    using t1 by (simp add: const_server_def not_found_def str_int_404)
  have b: "\<exists>m. fst (connect ?ne None HeadHunterAPI_init) = Inl (APIError m) \<and> sublist network_error m"
    using t2 by (simp add: const_server_def)
  have c: "fst (get_employer_by_id ?nf (of_ascii ''12345'') HHEmployerAPI_init) = Inl ?e"
    using t1 by (simp add: connect_not_found)
  have d: "fst (search_employers_by_keyword ?nf (JStr (of_ascii ''bank'')) HHEmployersAPI_init) = Inl ?e"
    using t1 by (simp add: connect_not_found)
  have e: "fst (get_top_employers ?nf (JInt 10) HHEmployersAPI_init) = Inl ?e"
    using t1 by (simp add: connect_not_found)
  have f: "fst (get_vacancies_by_employer_id ?nf (JStr (of_ascii ''1740'')) 20 HHVacanciesAPI_init) = Inl ?e"
    using t1 by (simp add: connect_not_found)
  have g: "fst (get_vacancies_by_employer_id ?ne (JStr (of_ascii ''1740'')) 20 HHVacanciesAPI_init)
      = Inl (APIError (msg_api_request @ network_error))"
    using t2 by (simp add: connect_network_error)
  let ?ps = "[[item ''1'', item ''2'']]"
  let ?eid = "JStr (of_ascii ''1740'')"
  have k: "int 1 < (20::int)" by simp
  have good: "\<forall>i<1. \<exists>r d. failing_after ?ps out (length (sent HHVacanciesAPI_init) + i)
              (page_request HHVacanciesAPI_init ?eid i) = Response r
              \<and> status_code r = 200 \<and> json_body r = Inr (JObj d)
              \<and> py_get d k_items (JList []) = JList (nth_page ?ps i) \<and> nth_page ?ps i \<noteq> []"
    for out
    using paged_server_ok [of ?ps 0 HHVacanciesAPI_init ?eid 0]
    by (simp add: failing_after_def sent_HHVacanciesAPI_init nth_page_def)
  have bad: "failing_after ?ps out (length (sent HHVacanciesAPI_init) + 1)
      (page_request HHVacanciesAPI_init ?eid 1) = out" for out
    by (simp add: failing_after_def sent_HHVacanciesAPI_init)
  have st: "status_code server_error \<noteq> 200" by (simp add: server_error_def)
  have m: "msg_api_status @ str_int (status_code server_error) @ of_ascii '' - ''
      @ resp_text server_error = msg_api_status @ of_ascii ''500 - Internal Server Error''"
    by (simp add: server_error_def str_int_def nat_digits.simps of_ascii_def)
  note t3 = C6_connect_failures [where srv = "failing_after ?ps (Response server_error)"
      and sv = HHVacanciesAPI_init and eid = ?eid and max_pages = 20 and k = 1
      and pages = "nth_page ?ps" and rk = server_error]
  note t4 = C6_connect_failures [where srv = "failing_after ?ps (RequestException network_error)"
      and sv = HHVacanciesAPI_init and eid = ?eid and max_pages = 20 and k = 1
      and pages = "nth_page ?ps" and msgk = network_error]
  from t3 k good [of "Response server_error"] bad [of "Response server_error"] st
  have "fst (get_vacancies_by_employer_id (failing_after ?ps (Response server_error)) ?eid 20
        HHVacanciesAPI_init)
      = Inl (APIError (msg_api_status @ str_int (status_code server_error) @ of_ascii '' - ''
          @ resp_text server_error))"
    by blast
  then have h: "fst (get_vacancies_by_employer_id (failing_after ?ps (Response server_error)) ?eid 20
        HHVacanciesAPI_init) = Inl (APIError (msg_api_status @ of_ascii ''500 - Internal Server Error''))"
    by (simp only: m)
  from t4 k good [of "RequestException network_error"] bad [of "RequestException network_error"]
  have i: "fst (get_vacancies_by_employer_id (failing_after ?ps (RequestException network_error))
        ?eid 20 HHVacanciesAPI_init) = Inl (APIError (msg_api_request @ network_error))"
    by blast
  from a b c d e f g h i show ?thesis by blast
qed

subsection \<open>Top employers\<close>

lemma sent_connect: "sent (snd (connect srv ep s)) = sent s @ [request_for ep s]"
  by (simp add: connect_def private_connect_def Let_def
      split: outcome.splits sum.splits json.splits)

lemma sent_fetch_employers:
  "sent (snd (fetch_employers srv s)) = sent s @ [request_for None s]"
proof -
  let ?s1 = "s\<lparr>employers := []\<rparr>"
  obtain r s2 where c: "connect srv None ?s1 = (r, s2)"
    by (cases "connect srv None ?s1")
  have "sent s2 = sent ?s1 @ [request_for None ?s1]"
    using sent_connect [of srv None ?s1] c by simp
  then have s2: "sent s2 = sent s @ [request_for None s]"
    by (simp add: request_for_def)
  show ?thesis
    using c s2 by (simp add: fetch_employers_def Let_def split: sum.splits)
qed

lemma connect_error_cases:
  "fst (connect srv ep s) = Inl e \<Longrightarrow> (\<exists>m. e = APIError m) \<or> e = ValueError msg_not_dict"
  by (auto simp: connect_def private_connect_def Let_def
      split: outcome.splits sum.splits json.splits if_splits)

lemma py_iter_error_cases:
  "py_iter v = Inl e \<Longrightarrow> \<exists>tp. e = not_iterable tp"
  by (cases v) auto

lemma fetch_employers_error_cases:
  assumes "fst (fetch_employers srv s) = Inl e"
  shows "(\<exists>m. e = APIError m) \<or> e = ValueError msg_not_dict \<or> (\<exists>tp. e = not_iterable tp)"
proof -
  let ?s1 = "s\<lparr>employers := []\<rparr>"
  obtain r s2 where c: "connect srv None ?s1 = (r, s2)"
    by (cases "connect srv None ?s1")
  show ?thesis
  proof (cases r)
    case (Inl e')
    with c assms have "e' = e" by (simp add: fetch_employers_def Let_def)
    with c Inl have "fst (connect srv None ?s1) = Inl e" by simp
    from connect_error_cases [OF this] show ?thesis by blast
  next
    case (Inr d)
    with c assms have "py_iter (py_get d k_items (JList [])) = Inl e"
      by (simp add: fetch_employers_def Let_def split: sum.splits)
    from py_iter_error_cases [OF this] show ?thesis by blast
  qed
qed

lemma not_iterable_neq: "not_iterable tp \<noteq> TypeError msg_not_number"
  by (simp add: not_iterable_def msg_not_number_def of_ascii_def)

lemma msg_not_dict_neq: "msg_not_dict \<noteq> msg_range"
  by (simp add: msg_not_dict_def msg_range_def)

lemma not_iterable_neq_ValueError: "not_iterable tp \<noteq> ValueError m"
  by (simp add: not_iterable_def)

lemma fetch_employers_not_validation:
  "fst (fetch_employers srv s) \<noteq> Inl (TypeError msg_not_number)"
  "fst (fetch_employers srv s) \<noteq> Inl (ValueError msg_range)"
proof -
  show "fst (fetch_employers srv s) \<noteq> Inl (TypeError msg_not_number)"
  proof
    assume "fst (fetch_employers srv s) = Inl (TypeError msg_not_number)"
    from fetch_employers_error_cases [OF this] show False
      using not_iterable_neq by (auto simp: eq_commute [of "TypeError msg_not_number"])
  qed
  show "fst (fetch_employers srv s) \<noteq> Inl (ValueError msg_range)"
  proof
    assume "fst (fetch_employers srv s) = Inl (ValueError msg_range)"
    from fetch_employers_error_cases [OF this] show False
      using msg_not_dict_neq not_iterable_neq_ValueError [of _ msg_range]
      by (auto simp: eq_commute [of "ValueError msg_range"])
  qed
qed

lemma fetch_employers_ok:
  assumes "srv (length (sent s)) (request_for None s) = Response r"
    and "status_code r = 200" and "json_body r = Inr (JObj d)"
    and "py_get d k_items (JList []) = JList items"
  shows "fst (fetch_employers srv s) = Inr items"
proof -
  let ?s1 = "s\<lparr>employers := []\<rparr>"
  have rq: "request_for None ?s1 = request_for None s" by (simp add: request_for_def)
  have "connect srv None ?s1 = (Inr d, ?s1\<lparr>sent := sent ?s1 @ [request_for None ?s1]\<rparr>)"
    using connect_ok [of srv ?s1 None r d] assms(1-3) rq by simp
  then show ?thesis
    using assms(4) by (simp add: fetch_employers_def Let_def)
qed

lemma top_valid:
  "int_value top_n = Some n \<Longrightarrow> n \<le> 100 \<Longrightarrow>
   get_top_employers srv top_n s = fetch_employers srv
     (s\<lparr>params := [(k_per_page, top_n), (k_sort_by, JStr (of_ascii ''by_vacancies_open'')),
                    (k_area, JStr (of_ascii ''113''))]\<rparr>)"
  by (simp add: get_top_employers_def)

lemma top_request_for:
  "request_for None (s\<lparr>params := [(k_per_page, top_n),
      (k_sort_by, JStr (of_ascii ''by_vacancies_open'')), (k_area, JStr (of_ascii ''113''))]\<rparr>)
   = top_request s top_n"
  by (simp add: request_for_def top_request_def)

lemma int_value_None_iff:
  "int_value v = None \<longleftrightarrow> (\<forall>i. v \<noteq> JInt i) \<and> (\<forall>b. v \<noteq> JBool b)"
  by (cases v) auto

lemma sent_HHEmployersAPI_init: "sent HHEmployersAPI_init = []"
  by (simp add: HHEmployersAPI_init_def HeadHunterAPI_init_def hh_api.defs)

lemma fetch_const_ok:
  "fst (fetch_employers (const_server (Response (ok_response [(k_items, JList xs)]))) s) = Inr xs"
  by (simp add: fetch_employers_def connect_def private_connect_def Let_def const_server_def
      ok_response_def py_get_def)

text \<open>
  Claim C3, as stated, fails on the code: an argument that passes validation does not
  make the call succeed, and the length of the result is not bounded by \<open>top_n\<close>. With
  \<open>top_n = 1\<close> and a response of two items the method returns both; with \<open>top_n = -1\<close>
  and a response without items it returns the empty list, which is longer than \<open>-1\<close>; with
  \<open>top_n = 5\<close> and a response of status 404 it fails with an \<open>APIError\<close>.
\<close>

theorem C3_top_employers_counterexample:
  "fst (get_top_employers (const_server (Response two_items)) (JInt 1) HHEmployersAPI_init)
      = Inr [item ''1'', item ''2'']
   \<and> \<not> int (length [item ''1'', item ''2'']) \<le> 1
   \<and> fst (get_top_employers (const_server (Response no_items)) (JInt (- 1)) HHEmployersAPI_init)
      = Inr []
   \<and> \<not> int (length ([] :: json list)) \<le> - 1
   \<and> fst (get_top_employers (const_server (Response not_found)) (JInt 5) HHEmployersAPI_init)
      = Inl (APIError (msg_api_status @ of_ascii ''404 - Not Found''))"
  by (simp add: get_top_employers_def fetch_const_ok two_items_def no_items_def
      fetch_employers_error connect_not_found)

text \<open>
  Claim C3, amended. An argument is an integer when it is an \<open>int\<close> or a \<open>bool\<close>. The
  method fails with the type error of its argument check exactly when \<open>top_n\<close> is not an
  integer, and with the range error exactly when \<open>top_n\<close> is an integer greater than 100;
  in both cases it leaves the object unchanged and issues no request. There is no lower
  bound: for every integer \<open>top_n\<close> up to 100 it issues exactly one request, with
  \<open>per_page = top_n\<close>; when \<open>connect\<close> fails on it the method fails with the same error;
  and when the response has status 200 and a dictionary whose \<open>items\<close> entry (the empty list
  when absent) is a list, the method returns exactly that list, whatever its length.
\<close>

theorem C3_top_employers_validation:
  "(int_value top_n = None \<longleftrightarrow> (\<forall>i. top_n \<noteq> JInt i) \<and> (\<forall>b. top_n \<noteq> JBool b))
   \<and> (fst (get_top_employers srv top_n s) = Inl (TypeError msg_not_number)
        \<longleftrightarrow> int_value top_n = None)
   \<and> (fst (get_top_employers srv top_n s) = Inl (ValueError msg_range)
        \<longleftrightarrow> (\<exists>n. int_value top_n = Some n \<and> 100 < n))
   \<and> (int_value top_n = None \<or> (\<exists>n. int_value top_n = Some n \<and> 100 < n)
        \<longrightarrow> snd (get_top_employers srv top_n s) = s)
   \<and> (\<forall>n. int_value top_n = Some n \<and> n \<le> 100 \<longrightarrow>
        sent (snd (get_top_employers srv top_n s)) = sent s @ [top_request s top_n]
        \<and> (\<forall>e. fst (connect srv None (s\<lparr>params := req_params (top_request s top_n),
               employers := []\<rparr>)) = Inl e \<longrightarrow> fst (get_top_employers srv top_n s) = Inl e)
        \<and> (\<forall>r d items. srv (length (sent s)) (top_request s top_n) = Response r
              \<and> status_code r = 200 \<and> json_body r = Inr (JObj d)
              \<and> py_get d k_items (JList []) = JList items
              \<longrightarrow> fst (get_top_employers srv top_n s) = Inr items))"
proof -
  let ?ps = "[(k_per_page, top_n), (k_sort_by, JStr (of_ascii ''by_vacancies_open'')),
                    (k_area, JStr (of_ascii ''113''))]"
  have a: "fst (get_top_employers srv top_n s) = Inl (TypeError msg_not_number)
        \<longleftrightarrow> int_value top_n = None"
  proof (cases "int_value top_n")
    case None
    then show ?thesis by (simp add: get_top_employers_def)
  next
    case (Some n)
    then show ?thesis
      using fetch_employers_not_validation(1) [of srv "s\<lparr>params := ?ps\<rparr>"]
      by (simp add: get_top_employers_def)
  qed
  have b: "fst (get_top_employers srv top_n s) = Inl (ValueError msg_range)
        \<longleftrightarrow> (\<exists>n. int_value top_n = Some n \<and> 100 < n)"
  proof (cases "int_value top_n")
    case None
    then show ?thesis by (simp add: get_top_employers_def)
  next
    case (Some n)
    then show ?thesis
      using fetch_employers_not_validation(2) [of srv "s\<lparr>params := ?ps\<rparr>"]
      by (simp add: get_top_employers_def)
  qed
  have c: "int_value top_n = None \<or> (\<exists>n. int_value top_n = Some n \<and> 100 < n)
        \<longrightarrow> snd (get_top_employers srv top_n s) = s"
    by (auto simp: get_top_employers_def)
  have d: "sent (snd (get_top_employers srv top_n s)) = sent s @ [top_request s top_n]"
    if "int_value top_n = Some n" "n \<le> 100" for n
    using sent_fetch_employers [of srv "s\<lparr>params := ?ps\<rparr>"]
    by (simp add: top_valid [OF that] top_request_for)
  have e: "fst (get_top_employers srv top_n s) = Inl e"
    if "int_value top_n = Some n" "n \<le> 100"
      "fst (connect srv None (s\<lparr>params := req_params (top_request s top_n),
               employers := []\<rparr>)) = Inl e" for n e
  proof -
    have "fst (connect srv None (s\<lparr>params := ?ps\<rparr>\<lparr>employers := []\<rparr>)) = Inl e"
      using that(3) by (simp add: top_request_def)
    from fetch_employers_error [of srv "s\<lparr>params := ?ps\<rparr>" e] this show ?thesis
      by (simp add: top_valid [OF that(1,2)])
  qed
  have f: "fst (get_top_employers srv top_n s) = Inr items"
    if "int_value top_n = Some n" "n \<le> 100"
      "srv (length (sent s)) (top_request s top_n) = Response r"
      "status_code r = 200" "json_body r = Inr (JObj d)"
      "py_get d k_items (JList []) = JList items" for n r d items
  proof -
    have "srv (length (sent (s\<lparr>params := ?ps\<rparr>))) (request_for None (s\<lparr>params := ?ps\<rparr>)) = Response r"
      using that(3) by (simp add: top_request_for)
    from fetch_employers_ok [of srv "s\<lparr>params := ?ps\<rparr>" r d items] this that(4,5,6)
    show ?thesis
      by (simp add: top_valid [OF that(1,2)])
  qed
  from int_value_None_iff [of top_n] a b c d e f show ?thesis by blast
qed

theorem C3_top_employers_validation_witness:
  "fst (get_top_employers (const_server (Response two_items)) (JStr (of_ascii ''Error''))
        HHEmployersAPI_init) = Inl (TypeError msg_not_number)
   \<and> fst (get_top_employers (const_server (Response two_items)) (JInt 101)
        HHEmployersAPI_init) = Inl (ValueError msg_range)
   \<and> snd (get_top_employers (const_server (Response two_items)) (JInt 101)
        HHEmployersAPI_init) = HHEmployersAPI_init
   \<and> sent (snd (get_top_employers (const_server (Response two_items)) (JInt 0) HHEmployersAPI_init))
        = [top_request HHEmployersAPI_init (JInt 0)]
   \<and> fst (get_top_employers (const_server (Response two_items)) (JInt 0) HHEmployersAPI_init)
        = Inr [item ''1'', item ''2'']
   \<and> fst (get_top_employers (const_server (Response not_found)) (JInt 5) HHEmployersAPI_init)
        = Inl (APIError (msg_api_status @ of_ascii ''404 - Not Found''))"
proof -
  let ?srv = "const_server (Response two_items)"
  note t1 = C3_top_employers_validation [of "JStr (of_ascii ''Error'')" ?srv HHEmployersAPI_init]
  note t2 = C3_top_employers_validation [of "JInt 101" ?srv HHEmployersAPI_init]
  note t3 = C3_top_employers_validation [of "JInt 0" ?srv HHEmployersAPI_init]
  note t4 = C3_top_employers_validation [of "JInt 5" "const_server (Response not_found)"
      HHEmployersAPI_init]
  have a: "fst (get_top_employers ?srv (JStr (of_ascii ''Error'')) HHEmployersAPI_init)
      = Inl (TypeError msg_not_number)"
    using t1 by simp
  have b: "fst (get_top_employers ?srv (JInt 101) HHEmployersAPI_init) = Inl (ValueError msg_range)"
    using t2 by simp
  have c: "snd (get_top_employers ?srv (JInt 101) HHEmployersAPI_init) = HHEmployersAPI_init"
    using t2 by simp
  have d: "sent (snd (get_top_employers ?srv (JInt 0) HHEmployersAPI_init))
        = [top_request HHEmployersAPI_init (JInt 0)]"
    using t3 by (simp add: sent_HHEmployersAPI_init)
  have r: "?srv (length (sent HHEmployersAPI_init)) (top_request HHEmployersAPI_init (JInt 0))
      = Response two_items
      \<and> status_code two_items = 200
      \<and> json_body two_items = Inr (JObj [(k_items, JList [item ''1'', item ''2''])])
      \<and> py_get [(k_items, JList [item ''1'', item ''2''])] k_items (JList [])
          = JList [item ''1'', item ''2'']"
    by (simp add: const_server_def two_items_def ok_response_def py_get_def)
  have "int_value (JInt 0) = Some 0 \<and> (0::int) \<le> 100" by simp
  with t3 r have e: "fst (get_top_employers ?srv (JInt 0) HHEmployersAPI_init)
        = Inr [item ''1'', item ''2'']"
    by blast
  have "int_value (JInt 5) = Some 5 \<and> (5::int) \<le> 100" by simp
  with t4 connect_not_found
  have f: "fst (get_top_employers (const_server (Response not_found)) (JInt 5) HHEmployersAPI_init)
        = Inl (APIError (msg_api_status @ of_ascii ''404 - Not Found''))"
    by blast
  from a b c d e f show ?thesis by blast
qed

text \<open>
  Claim C10. For the arguments \<open>True\<close> and \<open>False\<close> the method does not fail with the type
  error of its argument check: it behaves as the request step on the parameters whose
  \<open>per_page\<close> is the boolean itself, and issues exactly that request.
\<close>

theorem C10_booleans_pass_type_check:
  "fst (get_top_employers srv (JBool b) s) \<noteq> Inl (TypeError msg_not_number)
   \<and> sent (snd (get_top_employers srv (JBool b) s)) = sent s @ [top_request s (JBool b)]
   \<and> py_get (req_params (top_request s (JBool b))) k_per_page JNull = JBool b
   \<and> get_top_employers srv (JBool b) s
        = fetch_employers srv (s\<lparr>params := req_params (top_request s (JBool b))\<rparr>)"
proof -
  have v: "int_value (JBool b) = Some (if b then 1 else 0)" "(if b then 1 else 0) \<le> (100::int)"
    by simp_all
  have eq: "get_top_employers srv (JBool b) s
        = fetch_employers srv (s\<lparr>params := req_params (top_request s (JBool b))\<rparr>)"
    using top_valid [OF v] by (simp add: top_request_def)
  have a: "fst (get_top_employers srv (JBool b) s) \<noteq> Inl (TypeError msg_not_number)"
    unfolding eq by (rule fetch_employers_not_validation(1))
  have b: "sent (snd (get_top_employers srv (JBool b) s)) = sent s @ [top_request s (JBool b)]"
    unfolding eq using sent_fetch_employers [of srv "s\<lparr>params := req_params (top_request s (JBool b))\<rparr>"]
    by (simp add: request_for_def top_request_def)
  have c: "py_get (req_params (top_request s (JBool b))) k_per_page JNull = JBool b"
    by (simp add: top_request_def py_get_def)
  from a b c eq show ?thesis by blast
qed

section \<open>Properties of the data access layer\<close>

subsection \<open>Blank keywords\<close>

lemma split_from_spaces: "\<forall>c\<in>set s. is_space c \<Longrightarrow> split_from [] s = []"
  by (induction s) simp_all

text \<open>
  Claim C7. When every character of \<open>keywords\<close> is whitespace (the empty string
  included), \<open>get_vacancies_with_keyword\<close> returns the empty list and leaves the object as
  it was: the handle is unchanged and nothing is added to the trace, so no connection is
  opened and no statement is executed.
\<close>

theorem C7_blank_keywords:
  assumes "\<forall>c\<in>set keywords. is_space c"
  shows "get_vacancies_with_keyword drv keywords s = (Inr [], s)"
  using split_from_spaces [OF assms]
  by (simp add: get_vacancies_with_keyword_def py_split_def)

theorem C7_blank_keywords_witness:
  "(\<forall>c\<in>set [32, 9, 160]. is_space c) = True
   \<and> get_vacancies_with_keyword postgres_down [32, 9, 160] example_db = (Inr [], example_db)
   \<and> get_vacancies_with_keyword postgres_down [] example_db = (Inr [], example_db)"
proof -
  have h: "\<forall>c\<in>set [32, 9, 160]. is_space c" by (simp add: is_space_def)
  have h0: "\<forall>c\<in>set []. is_space c" by simp
  from C7_blank_keywords [OF h, of postgres_down example_db]
    C7_blank_keywords [OF h0, of postgres_down example_db] h
  show ?thesis by simp
qed

subsection \<open>The connection handle\<close>

lemma conn_db_close: "conn (db_close s) = None"
  by (simp add: db_close_def split: option.splits)

lemma conn_db_connect_error:
  "conn s = None \<Longrightarrow> db_connect drv s = (Inl e, s1) \<Longrightarrow> conn s1 = None"
  by (auto simp: db_connect_def Let_def split: sum.splits if_splits)

lemma conn_select_rows:
  assumes "conn s = None"
  shows "conn (snd (select_rows drv st s)) = None"
proof -
  obtain r s1 where c: "db_connect drv s = (r, s1)" by (cases "db_connect drv s")
  show ?thesis
  proof (cases r)
    case (Inl e)
    with c conn_db_connect_error [OF assms, of drv e s1] show ?thesis
      by (simp add: select_rows_def)
  next
    case (Inr u)
    with c show ?thesis
      by (simp add: select_rows_def Let_def conn_db_close split: option.splits sum.splits)
  qed
qed

lemma conn_get_avg_salary:
  assumes "conn s = None"
  shows "conn (snd (get_avg_salary drv fl s)) = None"
proof -
  obtain r s1 where c: "db_connect drv s = (r, s1)" by (cases "db_connect drv s")
  show ?thesis
  proof (cases r)
    case (Inl e)
    with c conn_db_connect_error [OF assms, of drv e s1] show ?thesis
      by (simp add: get_avg_salary_def)
  next
    case (Inr u)
    with c show ?thesis
      by (simp add: get_avg_salary_def Let_def conn_db_close split: option.splits sum.splits)
  qed
qed

lemma db_connect_opened:
  assumes "conn s = None"
    and "pg_connect drv (host s) (user s) (port s) (database s) (password s) = Inr c"
  shows "db_connect drv s = (Inr (), s\<lparr>trace := trace s @ [Connect], conn := Some c\<rparr>)"
  using assms by (simp add: db_connect_def Let_def)

lemma trace_select_rows:
  assumes "conn s = None"
    and "pg_connect drv (host s) (user s) (port s) (database s) (password s) = Inr c"
  shows "\<exists>evs. trace (snd (select_rows drv st s)) = trace s @ [Connect, Execute st] @ evs @ [Close]"
proof (cases "pg_execute drv st")
  case (Inr rows)
  then have "trace (snd (select_rows drv st s)) = trace s @ [Connect, Execute st] @ [] @ [Close]"
    by (simp add: select_rows_def db_connect_opened [OF assms] Let_def db_close_def)
  then show ?thesis by blast
next
  case (Inl e)
  show ?thesis
  proof (cases "is_DatabaseError e")
    case True
    with Inl have "trace (snd (select_rows drv st s))
        = trace s @ [Connect, Execute st] @ [Print (msg_error @ message e)] @ [Close]"
      by (simp add: select_rows_def db_connect_opened [OF assms] Let_def db_close_def)
    then show ?thesis by blast
  next
    case False
    with Inl have "trace (snd (select_rows drv st s)) = trace s @ [Connect, Execute st] @ [] @ [Close]"
      by (simp add: select_rows_def db_connect_opened [OF assms] Let_def db_close_def)
    then show ?thesis by blast
  qed
qed

lemma trace_get_avg_salary:
  assumes "conn s = None"
    and "pg_connect drv (host s) (user s) (port s) (database s) (password s) = Inr c"
  shows "\<exists>evs. trace (snd (get_avg_salary drv fl s))
           = trace s @ [Connect, Execute SelectAvgSalary] @ evs @ [Close]"
proof (cases "avg_salary_body drv fl")
  case (Inr r)
  then have "trace (snd (get_avg_salary drv fl s))
      = trace s @ [Connect, Execute SelectAvgSalary] @ [] @ [Close]"
    by (simp add: get_avg_salary_def db_connect_opened [OF assms] Let_def db_close_def)
  then show ?thesis by blast
next
  case (Inl e)
  consider "is_DatabaseError e" | "\<not> is_DatabaseError e" "is_ValueError e"
    | "\<not> is_DatabaseError e" "\<not> is_ValueError e" by blast
  then show ?thesis
  proof cases
    case 1
    with Inl have "trace (snd (get_avg_salary drv fl s))
        = trace s @ [Connect, Execute SelectAvgSalary] @ [Print (msg_error @ message e)] @ [Close]"
      by (simp add: get_avg_salary_def db_connect_opened [OF assms] Let_def db_close_def)
    then show ?thesis by blast
  next
    case 2
    with Inl have "trace (snd (get_avg_salary drv fl s))
        = trace s @ [Connect, Execute SelectAvgSalary] @ [Print msg_not_numeric] @ [Close]"
      by (simp add: get_avg_salary_def db_connect_opened [OF assms] Let_def db_close_def)
    then show ?thesis by blast
  next
    case 3
    with Inl have "trace (snd (get_avg_salary drv fl s))
        = trace s @ [Connect, Execute SelectAvgSalary] @ [] @ [Close]"
      by (simp add: get_avg_salary_def db_connect_opened [OF assms] Let_def db_close_def)
    then show ?thesis by blast
  qed
qed

lemma split_python_keyword: "py_split python_keyword \<noteq> []"
  by (simp add: py_split_def python_keyword_def of_ascii_def is_space_def)

lemma example_db_conn: "conn example_db = None"
  by (simp add: example_db_def DBManager_init_def)

text \<open>
  Claim C8. When the handle is unset before the call, it is unset after each of the five
  read operations, whether the operation returns or raises. When the driver opens the
  connection, the operation executes its statement on it and closes it last, whatever the
  statement's outcome (the keyword search when there is a keyword to search for).
\<close>

theorem C8_connection_released:
  assumes "conn s = None"
  shows "conn (snd (get_companies_and_vacancies_count drv s)) = None
       \<and> conn (snd (get_all_vacancies drv s)) = None
       \<and> conn (snd (get_avg_salary drv float_of_text s)) = None
       \<and> conn (snd (get_vacancies_with_higher_salary drv s)) = None
       \<and> conn (snd (get_vacancies_with_keyword drv keywords s)) = None
       \<and> (\<forall>c. pg_connect drv (host s) (user s) (port s) (database s) (password s) = Inr c \<longrightarrow>
            (\<exists>evs. trace (snd (get_companies_and_vacancies_count drv s))
                = trace s @ [Connect, Execute SelectCompaniesCount] @ evs @ [Close])
          \<and> (\<exists>evs. trace (snd (get_all_vacancies drv s))
                = trace s @ [Connect, Execute SelectAllVacancies] @ evs @ [Close])
          \<and> (\<exists>evs. trace (snd (get_avg_salary drv float_of_text s))
                = trace s @ [Connect, Execute SelectAvgSalary] @ evs @ [Close])
          \<and> (\<exists>evs. trace (snd (get_vacancies_with_higher_salary drv s))
                = trace s @ [Connect, Execute SelectHigherSalary] @ evs @ [Close])
          \<and> (py_split keywords \<noteq> [] \<longrightarrow>
               (\<exists>st evs. trace (snd (get_vacancies_with_keyword drv keywords s))
                = trace s @ [Connect, Execute st] @ evs @ [Close])))"
proof -
  have k: "conn (snd (get_vacancies_with_keyword drv keywords s)) = None"
    using assms conn_select_rows [OF assms]
    by (simp add: get_vacancies_with_keyword_def Let_def)
  have t: "\<exists>st evs. trace (snd (get_vacancies_with_keyword drv keywords s))
                = trace s @ [Connect, Execute st] @ evs @ [Close]"
    if "pg_connect drv (host s) (user s) (port s) (database s) (password s) = Inr c"
      "py_split keywords \<noteq> []" for c
    using trace_select_rows [OF assms that(1)] that(2)
    by (simp add: get_vacancies_with_keyword_def Let_def) blast
  show ?thesis
    using conn_select_rows [OF assms] conn_get_avg_salary [OF assms] k t
      trace_select_rows [OF assms] trace_get_avg_salary [OF assms]
    unfolding get_companies_and_vacancies_count_def get_all_vacancies_def
      get_vacancies_with_higher_salary_def
    by blast
qed

theorem C8_connection_released_witness:
  "conn example_db = None
   \<and> conn (snd (get_all_vacancies postgres_down example_db)) = None
   \<and> conn (snd (get_avg_salary postgres_down no_float example_db)) = None
   \<and> conn (snd (get_vacancies_with_higher_salary (postgres example_table no_results) example_db)) = None
   \<and> conn (snd (get_vacancies_with_keyword (postgres example_table no_results) python_keyword
        example_db)) = None
   \<and> (\<exists>evs. trace (snd (get_vacancies_with_higher_salary (postgres example_table no_results)
        example_db)) = [Connect, Execute SelectHigherSalary] @ evs @ [Close])"
proof -
  note t1 = C8_connection_released [OF example_db_conn, of postgres_down no_float python_keyword]
  note t2 = C8_connection_released [OF example_db_conn, of "postgres example_table no_results"
      no_float python_keyword]
  have tr: "trace example_db = []" by (simp add: example_db_def DBManager_init_def)
  have c: "pg_connect (postgres example_table no_results) (host example_db) (user example_db)
      (port example_db) (database example_db) (password example_db) = Inr 1"
    by (simp add: postgres_def)
  from t2 c have "\<exists>evs. trace (snd (get_vacancies_with_higher_salary
      (postgres example_table no_results) example_db))
      = trace example_db @ [Connect, Execute SelectHigherSalary] @ evs @ [Close]"
    by blast
  then have e: "\<exists>evs. trace (snd (get_vacancies_with_higher_salary
      (postgres example_table no_results) example_db))
      = [Connect, Execute SelectHigherSalary] @ evs @ [Close]"
    by (simp add: tr)
  from t1 t2 e example_db_conn show ?thesis by blast
qed

subsection \<open>Errors of the driver\<close>

text \<open>
  On an open connection a \<open>DatabaseError\<close> of the statement is caught and turned into the
  empty list, or into \<open>0.0\<close> by \<open>get_avg_salary\<close>.
\<close>

lemma select_rows_database_error:
  assumes "conn s = None"
    and "pg_connect drv (host s) (user s) (port s) (database s) (password s) = Inr c"
    and "pg_execute drv st = Inl (DatabaseError m)"
  shows "fst (select_rows drv st s) = Inr []"
  using assms(3) by (simp add: select_rows_def db_connect_opened [OF assms(1,2)] Let_def)

lemma get_avg_salary_database_error:
  assumes "conn s = None"
    and "pg_connect drv (host s) (user s) (port s) (database s) (password s) = Inr c"
    and "pg_execute drv SelectAvgSalary = Inl (DatabaseError m)"
  shows "fst (get_avg_salary drv float_of_text s) = Inr 0"
  using assms(3)
  by (simp add: get_avg_salary_def avg_salary_body_def db_connect_opened [OF assms(1,2)] Let_def)

text \<open>
  Claim C2 does not hold of the code when the connection cannot be opened. When the
  server refuses the connection, \<open>connect\<close> catches the driver's error, prints it and
  leaves the handle unset; each read operation
  then asks the unset handle for a cursor, and the \<open>AttributeError\<close> of that, which no
  handler of the operation names, reaches the caller.
\<close>

theorem C2_connection_failure_propagates:
  "fst (get_companies_and_vacancies_count postgres_down example_db) = Inl none_has_no_cursor
   \<and> fst (get_all_vacancies postgres_down example_db) = Inl none_has_no_cursor
   \<and> fst (get_avg_salary postgres_down no_float example_db) = Inl none_has_no_cursor
   \<and> fst (get_vacancies_with_higher_salary postgres_down example_db) = Inl none_has_no_cursor
   \<and> fst (get_vacancies_with_keyword postgres_down python_keyword example_db)
        = Inl none_has_no_cursor
   \<and> trace (snd (get_all_vacancies postgres_down example_db))
        = [Connect, Print (msg_connect_failed @ of_ascii ''connection refused'')]"
proof -
  have c: "db_connect postgres_down example_db
      = (Inr (), example_db\<lparr>trace := [Connect, Print (msg_connect_failed @ of_ascii ''connection refused'')],
           conn := None\<rparr>)"
    by (simp add: db_connect_def postgres_down_def example_db_def DBManager_init_def Let_def)
  have s: "fst (select_rows postgres_down st example_db) = Inl none_has_no_cursor" for st
    by (simp add: select_rows_def c db_close_def)
  have a: "fst (get_avg_salary postgres_down no_float example_db) = Inl none_has_no_cursor"
    by (simp add: get_avg_salary_def c db_close_def)
  have k: "fst (get_vacancies_with_keyword postgres_down python_keyword example_db)
        = Inl none_has_no_cursor"
    using split_python_keyword by (simp add: get_vacancies_with_keyword_def Let_def s)
  have t: "trace (snd (get_all_vacancies postgres_down example_db))
        = [Connect, Print (msg_connect_failed @ of_ascii ''connection refused'')]"
    by (simp add: get_all_vacancies_def select_rows_def c db_close_def)
  from s a k t show ?thesis
    by (simp add: get_companies_and_vacancies_count_def get_all_vacancies_def
        get_vacancies_with_higher_salary_def)
qed

subsection \<open>Vacancies above the average salary\<close>

text \<open>
  Claim C4 does not hold of the code. Of two vacancies with the bounds 100 to 101 and
  100 to 100, the first has the midpoint 100.5, above the average midpoint 100.25. The
  statement halves the sum of the bounds by integer division, compares 100 with 100.25,
  and returns no row.
\<close>

theorem C4_midpoint_truncated:
  "fst (get_vacancies_with_higher_salary (postgres example_table no_results) example_db) = Inr []
   \<and> midpoint (example_vacancy 10 100 101) = Some (201 / 2)
   \<and> average_midpoint example_table = Some (401 / 4)
   \<and> above_average example_table = [example_vacancy 10 100 101]"
proof -
  have a: "fst (get_vacancies_with_higher_salary (postgres example_table no_results) example_db) = Inr []"
    by (simp add: get_vacancies_with_higher_salary_def select_rows_def db_connect_def db_close_def
      example_db_def DBManager_init_def postgres_def sql_higher_salary_def higher_salary_rows_def
      example_table_def example_vacancy_def salary_sum_def sql_avg_def int_half_def Let_def)
  have b: "midpoint (example_vacancy 10 100 101) = Some (201 / 2)"
    by (simp add: midpoint_def example_vacancy_def)
  have c: "average_midpoint example_table = Some (401 / 4)"
    by (simp add: average_midpoint_def midpoint_def example_table_def example_vacancy_def Let_def)
  have d: "above_average example_table = [example_vacancy 10 100 101]"
    by (simp add: above_average_def average_midpoint_def midpoint_def example_table_def
      example_vacancy_def Let_def)
  from a b c d show ?thesis by blast
qed

end
